theory Spec2Isabelle
  imports Complex_Main "HOL-Library.Log_Nat"
begin

section \<open>The pandas column adapter \<open>polars_api_compat.pandas.Series\<close>\<close>

text \<open>
  The class \<open>Series\<close> of \<open>polars_api_compat/pandas/column_object.py\<close> wraps one pandas
  Series and maps every standard column operation onto a pandas call. This theory embeds
  the class method by method. The pandas and numpy calls the methods delegate to are
  embedded as the functions \<open>pd_...\<close> and \<open>np_...\<close> below, with the semantics of pandas 2.x
  on numpy-backed columns, on masked (nullable) columns and on datetime columns of
  nanosecond resolution.

  Python objects have identity and pandas objects can be assigned into, so the adapter's
  methods run against a store of pandas objects: a method takes the store and returns its
  result (or the exception it raises) together with the new store.
\<close>

subsection \<open>Exceptions\<close>

datatype error =
    NotImplementedError
  | AssertionError
  | AttributeError
  | ValueError
  | TypeError
  | OverflowError
  | UnsupportedDTypeError
  | NotModelled

text \<open>\<open>NotModelled\<close> is no Python exception: a pandas function of this theory returns
  it on the operand combinations whose pandas behaviour the theory does not embed, so
  that nothing is stated about them.\<close>

subsection \<open>Cells, dtypes and native pandas Series\<close>

text \<open>
  One slot of a column, and also a Python scalar. \<open>NA\<close> is the missing marker
  (\<open>pd.NA\<close>, \<open>None\<close> or \<open>NaT\<close>), \<open>NaN\<close> the floating not-a-number. A float is the rational
  it denotes; a timestamp is its distance from 1970-01-01 in nanoseconds, a timedelta
  its length in nanoseconds.
\<close>

datatype cell =
    NA
  | NaN
  | IntV int
  | BoolV bool
  | FloatV rat
  | Timestamp int
  | Timedelta int

text \<open>The numpy element kinds, named as the values of \<open>NUMPY_MAPPING\<close> name them.\<close>

datatype np_kind =
    k_int64 | k_int32 | k_int16 | k_int8
  | k_uint64 | k_uint32 | k_uint16 | k_uint8
  | k_bool
  | k_float64 | k_float32

text \<open>
  A pandas dtype: a numpy dtype (\<open>int64\<close>, ...), its masked nullable variant (\<open>Int64\<close>,
  ..., the keys of \<open>NUMPY_MAPPING\<close>), \<open>datetime64[ns]\<close> without or with a time zone,
  \<open>timedelta64[ns]\<close>, or \<open>object\<close>.
\<close>

datatype pd_dtype =
    Numpy np_kind
  | Masked np_kind
  | Datetime64 "string option"
  | Timedelta64
  | Object

definition is_float_kind :: "np_kind \<Rightarrow> bool" where
  "is_float_kind k = (k = k_float64 \<or> k = k_float32)"

definition is_unsigned_kind :: "np_kind \<Rightarrow> bool" where
  "is_unsigned_kind k = (k = k_uint64 \<or> k = k_uint32 \<or> k = k_uint16 \<or> k = k_uint8)"

definition is_signed_kind :: "np_kind \<Rightarrow> bool" where
  "is_signed_kind k = (k = k_int64 \<or> k = k_int32 \<or> k = k_int16 \<or> k = k_int8)"

definition kind_bits :: "np_kind \<Rightarrow> nat" where
  "kind_bits k =
     (if k = k_int64 \<or> k = k_uint64 \<or> k = k_float64 then 64
      else if k = k_int32 \<or> k = k_uint32 \<or> k = k_float32 then 32
      else if k = k_int16 \<or> k = k_uint16 then 16
      else 8)"

definition int_lo :: "np_kind \<Rightarrow> int" where
  "int_lo k = (if is_signed_kind k then - (2 ^ (kind_bits k - 1)) else 0)"

definition int_hi :: "np_kind \<Rightarrow> int" where
  "int_hi k = (if is_signed_kind k then 2 ^ (kind_bits k - 1) - 1 else 2 ^ kind_bits k - 1)"

definition fits :: "np_kind \<Rightarrow> int \<Rightarrow> bool" where
  "fits k i = ((is_signed_kind k \<or> is_unsigned_kind k) \<and> int_lo k \<le> i \<and> i \<le> int_hi k)"

text \<open>Which cells a numpy array of kind \<open>k\<close> can hold.\<close>

definition kind_ok :: "np_kind \<Rightarrow> cell \<Rightarrow> bool" where
  "kind_ok k c =
     (case c of
        IntV i \<Rightarrow> fits k i
      | BoolV b \<Rightarrow> k = k_bool
      | FloatV q \<Rightarrow> is_float_kind k
      | NaN \<Rightarrow> is_float_kind k
      | _ \<Rightarrow> False)"

definition in_int64 :: "int \<Rightarrow> bool" where
  "in_int64 t = (- (2 ^ 63) < t \<and> t < 2 ^ 63)"

text \<open>
  Which cells a column of a dtype can hold. A masked column adds the marker \<open>NA\<close> to
  its numpy kind; a datetime or timedelta column holds 64-bit nanosecond counts, and
  \<open>NaT\<close> (the least 64-bit integer) is its \<open>NA\<close>.
\<close>

definition cell_ok :: "pd_dtype \<Rightarrow> cell \<Rightarrow> bool" where
  "cell_ok d c =
     (case d of
        Numpy k \<Rightarrow> kind_ok k c
      | Masked k \<Rightarrow> c = NA \<or> kind_ok k c
      | Datetime64 tz \<Rightarrow> (case c of NA \<Rightarrow> True | Timestamp t \<Rightarrow> in_int64 t | _ \<Rightarrow> False)
      | Timedelta64 \<Rightarrow> (case c of NA \<Rightarrow> True | Timedelta t \<Rightarrow> in_int64 t | _ \<Rightarrow> False)
      | Object \<Rightarrow> True)"

text \<open>\<open>pandas.api.types.is_extension_array_dtype\<close>: true of the masked dtypes and of
  \<open>DatetimeTZDtype\<close>, false of every numpy dtype.\<close>

definition is_extension_array_dtype :: "pd_dtype \<Rightarrow> bool" where
  "is_extension_array_dtype d =
     (case d of Masked k \<Rightarrow> True | Datetime64 (Some tz) \<Rightarrow> True | _ \<Rightarrow> False)"

text \<open>A native pandas Series: its slots, its dtype, its name (\<open>None\<close> when unnamed) and
  its index labels.\<close>

record native =
  ncells :: "cell list"
  ndtype :: pd_dtype
  nname :: "string option"
  nindex :: "int list"

definition wf_native :: "native \<Rightarrow> bool" where
  "wf_native n =
     (length (nindex n) = length (ncells n) \<and> list_all (cell_ok (ndtype n)) (ncells n))"

subsection \<open>The store of pandas objects\<close>

text \<open>
  An object's address is its position in the store; a new object goes to the end. An
  object of the store is a Series with its own content. pandas may let two Series
  share one buffer (\<open>rename(copy=False)\<close> does), which only matters to code that
  assigns into a shared buffer; the class assigns into the result of \<open>copy()\<close>, which
  shares nothing, and into the \<open>index\<close> attribute of a result it has just created.
\<close>

type_synonym addr = nat

type_synonym heap = "native list"

definition alloc :: "heap \<Rightarrow> native \<Rightarrow> addr \<times> heap" where
  "alloc h v = (length h, h @ [v])"

text \<open>\<open>ser.copy()\<close> makes a new object with the same content.\<close>

definition pd_copy :: "heap \<Rightarrow> addr \<Rightarrow> addr \<times> heap" where
  "pd_copy h a = alloc h (h ! a)"

text \<open>\<open>ser.index = idx\<close> assigns into the object at \<open>a\<close>.\<close>

definition set_index :: "heap \<Rightarrow> addr \<Rightarrow> int list \<Rightarrow> heap" where
  "set_index h a idx = h[a := (h ! a)\<lparr>nindex := idx\<rparr>]"

text \<open>\<open>ser.rename(name, copy=False)\<close> is a new Series with the given name.\<close>

definition pd_rename :: "native \<Rightarrow> string option \<Rightarrow> native" where
  "pd_rename ser n = ser\<lparr>nname := n\<rparr>"

subsection \<open>The wrapper\<close>

text \<open>The fields \<open>_name\<close>, \<open>_series\<close> (a reference to the pandas object) and
  \<open>_api_version\<close>.\<close>

record Series =
  name :: string
  series :: addr
  api_version :: string

text \<open>\<open>Series.__init__\<close>: reads the name of the pandas object and asserts it is set.\<close>

definition init :: "heap \<Rightarrow> addr \<Rightarrow> string \<Rightarrow> error + Series" where
  "init h a v =
     (case nname (h ! a) of
        None \<Rightarrow> Inl AssertionError
      | Some n \<Rightarrow> Inr \<lparr>name = n, series = a, api_version = v\<rparr>)"

text \<open>\<open>Series._from_series\<close>: the wrapper of \<open>series.rename(series.name, copy=False)\<close>.\<close>

definition from_series :: "heap \<Rightarrow> Series \<Rightarrow> native \<Rightarrow> (error + Series) \<times> heap" where
  "from_series h self ser =
     (let (a, h') = alloc h (pd_rename ser (nname ser))
      in (init h' a (api_version self), h'))"

text \<open>The property \<open>column\<close>: the pandas object the wrapper refers to.\<close>

definition column :: "heap \<Rightarrow> Series \<Rightarrow> native" where
  "column h self = h ! series self"

text \<open>A wrapper is well formed in a store when it refers to an object of the store
  that carries the wrapper's name, as every wrapper that \<open>init\<close> built does.\<close>

definition wf_series :: "heap \<Rightarrow> Series \<Rightarrow> bool" where
  "wf_series h c =
     (series c < length h \<and> nname (h ! series c) = Some (name c) \<and> wf_native (h ! series c))"

subsection \<open>Binary64 floating point\<close>

text \<open>
  A float64 is the rational it denotes. \<open>fl\<close> rounds a rational to the nearest number
  with a 53-bit significand, ties to even, which is what every float64 operation of
  numpy does to its exact result (overflow and subnormal numbers are outside the range
  of the values met here).
\<close>

definition pow2 :: "int \<Rightarrow> rat" where
  "pow2 e = (if 0 \<le> e then 2 ^ nat e else 1 / 2 ^ nat (- e))"

text \<open>For \<open>0 < q\<close>, the exponent \<open>e\<close> with \<open>2 ^ e \<le> q < 2 ^ (e + 1)\<close>.\<close>

definition ilog2 :: "rat \<Rightarrow> int" where
  "ilog2 q = (if 1 \<le> q then bitlen \<lfloor>q\<rfloor> - 1 else - bitlen (\<lceil>1 / q\<rceil> - 1))"

definition round_half_even :: "rat \<Rightarrow> int" where
  "round_half_even q =
     (let f = \<lfloor>q\<rfloor>; r = q - of_int f
      in if r < 1 / 2 then f else if 1 / 2 < r then f + 1
         else if even f then f else f + 1)"

definition round_to :: "nat \<Rightarrow> rat \<Rightarrow> rat" where
  "round_to prec q =
     (if q = 0 then 0
      else let a = \<bar>q\<bar>; p = ilog2 a - (int prec - 1); m = round_half_even (a / pow2 p)
           in sgn q * of_int m * pow2 p)"

definition fl :: "rat \<Rightarrow> rat" where
  "fl q = round_to 53 q"

text \<open>Rounding to the floats of a kind: float32 has a 24-bit significand.\<close>

definition round_kind :: "np_kind \<Rightarrow> rat \<Rightarrow> rat" where
  "round_kind k q = (if k = k_float32 then round_to 24 q else fl q)"

subsection \<open>pandas: missing values and boolean masks\<close>

text \<open>
  \<open>ser.isna()\<close>. A masked column reports its mask, so a \<open>NaN\<close> stored in a masked float
  column is not missing; every numpy-backed column (datetimes with their \<open>NaT\<close>
  included) reports \<open>None\<close>, \<open>NaT\<close> and \<open>NaN\<close>.
\<close>

definition isna_cell :: "pd_dtype \<Rightarrow> cell \<Rightarrow> bool" where
  "isna_cell d c = (case d of Masked k \<Rightarrow> c = NA | _ \<Rightarrow> c = NA \<or> c = NaN)"

definition pd_isna :: "native \<Rightarrow> native" where
  "pd_isna ser =
     ser\<lparr>ncells := map (\<lambda>c. BoolV (isna_cell (ndtype ser) c)) (ncells ser),
         ndtype := Numpy k_bool\<rparr>"

text \<open>
  \<open>ser != other\<close>, slot by slot, for two Series of one dtype. On a masked column a
  comparison with \<open>NA\<close> is \<open>NA\<close>. On datetime and timedelta columns (time zone or not)
  and on numpy floats, \<open>!=\<close> is true as soon as one side is \<open>NaT\<close> or \<open>NaN\<close>. On an object
  column Python compares the elements, and \<open>None != None\<close> is false.
\<close>

definition ne_cell :: "pd_dtype \<Rightarrow> cell \<Rightarrow> cell \<Rightarrow> cell" where
  "ne_cell d a b =
     (case d of
        Masked k \<Rightarrow>
          if a = NA \<or> b = NA then NA
          else if a = NaN \<or> b = NaN then BoolV True
          else BoolV (a \<noteq> b)
      | Object \<Rightarrow>
          if a = NaN \<or> b = NaN then BoolV True else BoolV (a \<noteq> b)
      | _ \<Rightarrow>
          if a = NA \<or> b = NA \<or> a = NaN \<or> b = NaN then BoolV True
          else BoolV (a \<noteq> b))"

definition bool_dtype_of :: "pd_dtype \<Rightarrow> pd_dtype" where
  "bool_dtype_of d = (case d of Masked k \<Rightarrow> Masked k_bool | _ \<Rightarrow> Numpy k_bool)"

definition pd_ne :: "native \<Rightarrow> native \<Rightarrow> native" where
  "pd_ne ser other =
     ser\<lparr>ncells := map2 (ne_cell (ndtype ser)) (ncells ser) (ncells other),
         ndtype := bool_dtype_of (ndtype ser)\<rparr>"

text \<open>\<open>~mask\<close> and \<open>mask & other\<close> on boolean Series (Kleene logic where a slot is
  \<open>NA\<close>).\<close>

definition invert_cell :: "cell \<Rightarrow> cell" where
  "invert_cell c = (case c of BoolV b \<Rightarrow> BoolV (\<not> b) | _ \<Rightarrow> NA)"

definition pd_invert :: "native \<Rightarrow> native" where
  "pd_invert ser = ser\<lparr>ncells := map invert_cell (ncells ser)\<rparr>"

definition and_cell :: "cell \<Rightarrow> cell \<Rightarrow> cell" where
  "and_cell a b =
     (if a = BoolV False \<or> b = BoolV False then BoolV False
      else if a = BoolV True \<and> b = BoolV True then BoolV True
      else NA)"

definition pd_and :: "native \<Rightarrow> native \<Rightarrow> native" where
  "pd_and ser other =
     ser\<lparr>ncells := map2 and_cell (ncells ser) (ncells other),
         ndtype := (if ndtype ser = Numpy k_bool \<and> ndtype other = Numpy k_bool
                    then Numpy k_bool else Masked k_bool)\<rparr>"

text \<open>\<open>mask.to_numpy(bool)\<close>.\<close>

definition to_numpy_bool :: "native \<Rightarrow> bool list" where
  "to_numpy_bool ser = map (\<lambda>c. c = BoolV True) (ncells ser)"

subsection \<open>pandas: storing a value into a column\<close>

text \<open>
  What a column of dtype \<open>d\<close> stores when a scalar is assigned into it. A masked array
  stores every missing-like scalar (\<open>None\<close>, \<open>pd.NA\<close>, \<open>NaN\<close>) as \<open>NA\<close>; a numpy float
  array stores \<open>None\<close> as \<open>NaN\<close> and an integer as the nearest float; datetimes store
  missing-like scalars as \<open>NaT\<close>. A scalar the dtype cannot hold is reported as
  \<open>TypeError\<close> (a masked array raises it; a numpy-backed column would change its dtype
  instead, which is not modelled).
\<close>

definition coerce_kind :: "np_kind \<Rightarrow> cell \<Rightarrow> error + cell" where
  "coerce_kind k v =
     (case v of
        IntV i \<Rightarrow>
          if is_float_kind k then Inr (FloatV (round_kind k (of_int i)))
          else if fits k i then Inr v else Inl TypeError
      | _ \<Rightarrow> if kind_ok k v then Inr v else Inl TypeError)"

definition coerce :: "pd_dtype \<Rightarrow> cell \<Rightarrow> error + cell" where
  "coerce d v =
     (case d of
        Masked k \<Rightarrow> if v = NA \<or> v = NaN then Inr NA else coerce_kind k v
      | Numpy k \<Rightarrow>
          if v = NA then (if is_float_kind k then Inr NaN else Inl TypeError)
          else coerce_kind k v
      | Object \<Rightarrow> Inr v
      | _ \<Rightarrow>
          if v = NA \<or> v = NaN then Inr NA
          else if cell_ok d v then Inr v else Inl TypeError)"

text \<open>An operand after validation: a scalar or a native Series.\<close>

datatype opnd = Scalar cell | Col native

text \<open>The value an operand gives at each of \<open>n\<close> slots, stored into dtype \<open>d\<close>. A Series
  operand has to have the column's dtype and length.\<close>

definition opnd_cells :: "pd_dtype \<Rightarrow> nat \<Rightarrow> opnd \<Rightarrow> error + cell list" where
  "opnd_cells d n v =
     (case v of
        Scalar x \<Rightarrow> (case coerce d x of Inl e \<Rightarrow> Inl e | Inr x' \<Rightarrow> Inr (replicate n x'))
      | Col s \<Rightarrow>
          if ndtype s = d \<and> length (ncells s) = n then Inr (ncells s) else Inl TypeError)"

text \<open>\<open>ser.fillna(value)\<close>: the missing slots take the value. \<open>fillna(None)\<close> raises
  \<open>ValueError\<close>.\<close>

definition pd_fillna :: "native \<Rightarrow> opnd \<Rightarrow> error + native" where
  "pd_fillna ser v =
     (if v = Scalar NA then Inl ValueError
      else case opnd_cells (ndtype ser) (length (ncells ser)) v of
        Inl e \<Rightarrow> Inl e
      | Inr xs \<Rightarrow>
          Inr (ser\<lparr>ncells :=
                 map2 (\<lambda>c x. if isna_cell (ndtype ser) c then x else c) (ncells ser) xs\<rparr>))"

text \<open>\<open>ser.where(cond, other)\<close>: the slots where \<open>cond\<close> is not true take \<open>other\<close>. When
  \<open>cond\<close> is true everywhere the result is a plain copy.\<close>

definition pd_where :: "native \<Rightarrow> native \<Rightarrow> opnd \<Rightarrow> error + native" where
  "pd_where ser cond other =
     (if list_all (\<lambda>m. m = BoolV True) (ncells cond) then Inr ser
      else case opnd_cells (ndtype ser) (length (ncells ser)) other of
        Inl e \<Rightarrow> Inl e
      | Inr xs \<Rightarrow>
          Inr (ser\<lparr>ncells :=
                 map (\<lambda>(c, m, x). if m = BoolV True then c else x)
                   (zip (ncells ser) (zip (ncells cond) xs))\<rparr>))"

text \<open>\<open>ser[mask] = value\<close>, the assignment itself: the content of the object after it.
  Nothing is stored, and nothing checked, when the mask selects no slot.\<close>

definition pd_setitem :: "native \<Rightarrow> bool list \<Rightarrow> cell \<Rightarrow> error + native" where
  "pd_setitem ser msk v =
     (if \<not> list_ex (\<lambda>m. m) msk then Inr ser
      else case coerce (ndtype ser) v of
        Inl e \<Rightarrow> Inl e
      | Inr v' \<Rightarrow> Inr (ser\<lparr>ncells := map2 (\<lambda>c m. if m then v' else c) (ncells ser) msk\<rparr>))"

text \<open>
  \<open>np.isnan(ser)\<close>: true at \<open>NaN\<close> and, on datetime and timedelta columns, at \<open>NaT\<close>;
  a masked column keeps its \<open>NA\<close>; an object column raises \<open>TypeError\<close>.
\<close>

definition isnan_cell :: "pd_dtype \<Rightarrow> cell \<Rightarrow> cell" where
  "isnan_cell d c =
     (case d of
        Masked k \<Rightarrow> if c = NA then NA else BoolV (c = NaN)
      | _ \<Rightarrow> BoolV (c = NaN \<or> c = NA))"

definition np_isnan :: "native \<Rightarrow> error + native" where
  "np_isnan ser =
     (if ndtype ser = Object then Inl TypeError
      else Inr (ser\<lparr>ncells := map (isnan_cell (ndtype ser)) (ncells ser),
                    ndtype := bool_dtype_of (ndtype ser)\<rparr>))"

subsection \<open>Parts of the repository outside the class\<close>

text \<open>An operand as a caller passes it: a scalar or another wrapped column.\<close>

datatype operand = ScalarArg cell | SeriesArg Series

text \<open>
  Modelled from the spec: \<open>polars_api_compat.utils.validate_column_comparand\<close> is not
  part of the class file. By the specification it determines that the operand is
  index- and shape-compatible with the left-hand column, extracts the operand's raw
  native value (unwrapping the adapter), and fails with a \<open>ValueError\<close> when the
  indices are incompatible.
\<close>

definition validate_column_comparand :: "heap \<Rightarrow> Series \<Rightarrow> operand \<Rightarrow> error + opnd" where
  "validate_column_comparand h self other =
     (case other of
        ScalarArg v \<Rightarrow> Inr (Scalar v)
      | SeriesArg s \<Rightarrow>
          if nindex (column h s) = nindex (column h self)
             \<and> length (ncells (column h s)) = length (ncells (column h self))
          then Inr (Col (column h s))
          else Inl ValueError)"

text \<open>
  Modelled from the spec: \<open>Namespace.is_null\<close>, reached through
  \<open>__column_namespace__\<close>, is not part of the class file either. It tells whether a
  scalar is the null scalar.
\<close>

definition namespace_is_null :: "cell \<Rightarrow> bool" where
  "namespace_is_null v = (v = NA)"

subsection \<open>Null and NaN: \<open>is_null\<close>, \<open>is_nan\<close>, \<open>fill_nan\<close>, \<open>fill_null\<close>\<close>

definition is_null :: "heap \<Rightarrow> Series \<Rightarrow> (error + Series) \<times> heap" where
  "is_null h self = (let ser = column h self in from_series h self (pd_isna ser))"

definition is_nan :: "heap \<Rightarrow> Series \<Rightarrow> (error + Series) \<times> heap" where
  "is_nan h self =
     (let ser = column h self
      in if is_extension_array_dtype (ndtype ser)
         then (case pd_fillna (pd_ne ser ser) (Scalar (BoolV False)) of
                 Inl e \<Rightarrow> (Inl e, h)
               | Inr r \<Rightarrow> from_series h self r)
         else from_series h self (pd_isna ser))"

text \<open>
  \<open>fill_nan\<close> copies the column, assigns into the copy under the mask
  \<open>np.isnan(ser).fillna(False).to_numpy(bool)\<close>, puts the index back and wraps the copy.
\<close>

definition nan_mask :: "native \<Rightarrow> error + bool list" where
  "nan_mask ser =
     (case np_isnan ser of
        Inl e \<Rightarrow> Inl e
      | Inr m \<Rightarrow>
          (case pd_fillna m (Scalar (BoolV False)) of
             Inl e \<Rightarrow> Inl e
           | Inr m' \<Rightarrow> Inr (to_numpy_bool m')))"

definition fill_nan :: "heap \<Rightarrow> Series \<Rightarrow> cell \<Rightarrow> (error + Series) \<times> heap" where
  "fill_nan h self v =
     (let idx = nindex (column h self);
          (ser, h1) = pd_copy h (series self);
          stored =
            (if is_extension_array_dtype (ndtype (h1 ! ser))
             then (if namespace_is_null v then NA else v)
             else (if namespace_is_null v then NaN else v))
      in (case nan_mask (h1 ! ser) of
            Inl e \<Rightarrow> (Inl e, h1)
          | Inr msk \<Rightarrow>
              (case pd_setitem (h1 ! ser) msk stored of
                 Inl e \<Rightarrow> (Inl e, h1)
               | Inr assigned \<Rightarrow>
                   (let h2 = h1[ser := assigned];
                        h3 = set_index h2 ser idx
                    in from_series h3 self (h3 ! ser)))))"

text \<open>
  \<open>fill_null\<close> copies the column. For an extension dtype it computes
  \<open>mask = ser.isna() & (~(ser != ser).fillna(False))\<close> and takes \<open>ser.where(~mask, value)\<close>;
  otherwise it takes \<open>ser.fillna(value)\<close>. Either is a new object, whose index it then
  assigns, and which it wraps under the column's name.
\<close>

definition fill_null :: "heap \<Rightarrow> Series \<Rightarrow> operand \<Rightarrow> (error + Series) \<times> heap" where
  "fill_null h self v =
     (case validate_column_comparand h self v of
        Inl e \<Rightarrow> (Inl e, h)
      | Inr v \<Rightarrow>
         (let idx = nindex (column h self);
              (ser, h1) = pd_copy h (series self);
              filled =
                (if is_extension_array_dtype (ndtype (h1 ! ser))
                 then (case pd_fillna (pd_ne (h1 ! ser) (h1 ! ser)) (Scalar (BoolV False)) of
                         Inl e \<Rightarrow> Inl e
                       | Inr self_ne \<Rightarrow>
                           (let msk = pd_and (pd_isna (h1 ! ser)) (pd_invert self_ne)
                            in pd_where (h1 ! ser) (pd_invert msk) v))
                 else pd_fillna (h1 ! ser) v)
          in (case filled of
                Inl e \<Rightarrow> (Inl e, h1)
              | Inr r \<Rightarrow>
                  (let (ser, h2) = alloc h1 r;
                       h3 = set_index h2 ser idx
                   in from_series h3 self (pd_rename (h3 ! ser) (Some (name self)))))))"

subsection \<open>Running one method after another\<close>

text \<open>The second call runs in the store the first one left, unless the first raised.\<close>

definition and_then ::
  "(error + 'a) \<times> heap \<Rightarrow> (heap \<Rightarrow> 'a \<Rightarrow> (error + 'b) \<times> heap) \<Rightarrow> (error + 'b) \<times> heap" where
  "and_then r f = (case r of (Inl e, h) \<Rightarrow> (Inl e, h) | (Inr x, h) \<Rightarrow> f h x)"

text \<open>What a caller sees of a returned column: its slots, or the exception.\<close>

definition result_cells :: "(error + Series) \<times> heap \<Rightarrow> error + cell list" where
  "result_cells r = (case r of (Inl e, h) \<Rightarrow> Inl e | (Inr c, h) \<Rightarrow> Inr (ncells (column h c)))"

text \<open>The first exception of a list of slot results, or all the slots.\<close>

fun sequence :: "(error + 'a) list \<Rightarrow> error + 'a list" where
  "sequence [] = Inr []"
| "sequence (x # xs) =
     (case x of
        Inl e \<Rightarrow> Inl e
      | Inr v \<Rightarrow> (case sequence xs of Inl e \<Rightarrow> Inl e | Inr vs \<Rightarrow> Inr (v # vs)))"

subsection \<open>pandas: arithmetic\<close>

text \<open>
  Integer arithmetic of numpy wraps around at the width of the kind. A Python integer
  operand takes the kind of the array and raises \<open>OverflowError\<close> when it does not fit
  (numpy 2; earlier versions widen the result instead). Float arithmetic rounds the
  exact result. A masked column gives \<open>NA\<close> where either side is \<open>NA\<close>.

  Datetimes and timedeltas: a difference of two timestamps is a timedelta; a timestamp
  minus a timedelta is a timestamp; a timedelta minus a timestamp raises \<open>TypeError\<close>;
  a timedelta times an integer is a timedelta; a result outside 64 bits raises
  \<open>OverflowError\<close>.
\<close>

datatype binop = Sub | RSub | Mul

text \<open>\<open>Sub\<close> is \<open>ser - other\<close>, \<open>RSub\<close> is \<open>other - ser\<close>, \<open>Mul\<close> is \<open>ser * other\<close>.\<close>

definition wrap :: "np_kind \<Rightarrow> int \<Rightarrow> int" where
  "wrap k i =
     (if is_signed_kind k
      then (i + 2 ^ (kind_bits k - 1)) mod 2 ^ kind_bits k - 2 ^ (kind_bits k - 1)
      else i mod 2 ^ kind_bits k)"

definition int_op :: "binop \<Rightarrow> int \<Rightarrow> int \<Rightarrow> int" where
  "int_op opr a x = (case opr of Sub \<Rightarrow> a - x | RSub \<Rightarrow> x - a | Mul \<Rightarrow> a * x)"

definition rat_op :: "binop \<Rightarrow> rat \<Rightarrow> rat \<Rightarrow> rat" where
  "rat_op opr a x = (case opr of Sub \<Rightarrow> a - x | RSub \<Rightarrow> x - a | Mul \<Rightarrow> a * x)"

text \<open>One slot \<open>a\<close> of a numeric column of kind \<open>k\<close> against the operand's slot \<open>x\<close>.\<close>

definition num_cell :: "binop \<Rightarrow> np_kind \<Rightarrow> cell \<Rightarrow> cell \<Rightarrow> error + cell" where
  "num_cell opr k a x =
     (case a of
        IntV i \<Rightarrow> (case x of IntV j \<Rightarrow> Inr (IntV (wrap k (int_op opr i j))) | _ \<Rightarrow> Inl NotModelled)
      | FloatV p \<Rightarrow>
          (case x of
             FloatV q \<Rightarrow> Inr (FloatV (round_kind k (rat_op opr p q)))
           | NaN \<Rightarrow> Inr NaN
           | _ \<Rightarrow> Inl NotModelled)
      | NaN \<Rightarrow> (case x of FloatV q \<Rightarrow> Inr NaN | NaN \<Rightarrow> Inr NaN | _ \<Rightarrow> Inl NotModelled)
      | _ \<Rightarrow> Inl NotModelled)"

definition checked64 :: "(int \<Rightarrow> cell) \<Rightarrow> int \<Rightarrow> error + cell" where
  "checked64 mk t = (if in_int64 t then Inr (mk t) else Inl OverflowError)"

text \<open>One slot of a datetime column against the operand's slot.\<close>

definition dt_cell :: "binop \<Rightarrow> cell \<Rightarrow> cell \<Rightarrow> error + cell" where
  "dt_cell opr a x =
     (case opr of
        Mul \<Rightarrow> Inl TypeError
      | Sub \<Rightarrow>
          (case x of
             Timestamp t \<Rightarrow>
               (case a of Timestamp s \<Rightarrow> checked64 Timedelta (s - t) | _ \<Rightarrow> Inr NA)
           | Timedelta t \<Rightarrow>
               (case a of Timestamp s \<Rightarrow> checked64 Timestamp (s - t) | _ \<Rightarrow> Inr NA)
           | _ \<Rightarrow> Inr NA)
      | RSub \<Rightarrow>
          (case x of
             Timestamp t \<Rightarrow>
               (case a of Timestamp s \<Rightarrow> checked64 Timedelta (t - s) | _ \<Rightarrow> Inr NA)
           | _ \<Rightarrow> Inr NA))"

text \<open>One slot of a timedelta column against the operand's slot.\<close>

definition td_cell :: "binop \<Rightarrow> cell \<Rightarrow> cell \<Rightarrow> error + cell" where
  "td_cell opr a x =
     (case opr of
        Mul \<Rightarrow>
          (case x of
             IntV j \<Rightarrow> (case a of Timedelta s \<Rightarrow> checked64 Timedelta (s * j) | _ \<Rightarrow> Inr NA)
           | _ \<Rightarrow> Inr NA)
      | Sub \<Rightarrow>
          (case x of
             Timedelta t \<Rightarrow>
               (case a of Timedelta s \<Rightarrow> checked64 Timedelta (s - t) | _ \<Rightarrow> Inr NA)
           | _ \<Rightarrow> Inr NA)
      | RSub \<Rightarrow>
          (case x of
             Timedelta t \<Rightarrow>
               (case a of Timedelta s \<Rightarrow> checked64 Timedelta (t - s) | _ \<Rightarrow> Inr NA)
           | Timestamp t \<Rightarrow>
               (case a of Timedelta s \<Rightarrow> checked64 Timestamp (t - s) | _ \<Rightarrow> Inr NA)
           | _ \<Rightarrow> Inr NA))"

definition arith_cell :: "binop \<Rightarrow> pd_dtype \<Rightarrow> cell \<Rightarrow> cell \<Rightarrow> error + cell" where
  "arith_cell opr d a x =
     (case d of
        Numpy k \<Rightarrow> num_cell opr k a x
      | Masked k \<Rightarrow> if a = NA \<or> x = NA then Inr NA else num_cell opr k a x
      | Datetime64 tz \<Rightarrow> dt_cell opr a x
      | Timedelta64 \<Rightarrow> td_cell opr a x
      | Object \<Rightarrow> Inl NotModelled)"

text \<open>What kind of thing the operand is: a timestamp (scalar or column), a timedelta,
  an integer scalar, or something else.\<close>

definition is_stamp :: "opnd \<Rightarrow> bool" where
  "is_stamp v =
     (case v of
        Scalar x \<Rightarrow> (case x of Timestamp t \<Rightarrow> True | _ \<Rightarrow> False)
      | Col s \<Rightarrow> (case ndtype s of Datetime64 tz \<Rightarrow> True | _ \<Rightarrow> False))"

definition is_delta :: "opnd \<Rightarrow> bool" where
  "is_delta v =
     (case v of
        Scalar x \<Rightarrow> (case x of Timedelta t \<Rightarrow> True | _ \<Rightarrow> False)
      | Col s \<Rightarrow> ndtype s = Timedelta64)"

definition is_int_scalar :: "opnd \<Rightarrow> bool" where
  "is_int_scalar v = (case v of Scalar x \<Rightarrow> (case x of IntV j \<Rightarrow> True | _ \<Rightarrow> False) | Col s \<Rightarrow> False)"

text \<open>
  The operand as the slots it contributes to a numeric column of kind \<open>k\<close> with \<open>n\<close>
  slots: a Python scalar is converted to the kind first.
\<close>

definition num_scalar :: "np_kind \<Rightarrow> cell \<Rightarrow> error + cell" where
  "num_scalar k x =
     (case x of
        IntV j \<Rightarrow>
          if is_float_kind k then Inr (FloatV (round_kind k (of_int j)))
          else if fits k j then Inr x else Inl OverflowError
      | FloatV q \<Rightarrow> if is_float_kind k then Inr (FloatV (round_kind k q)) else Inl NotModelled
      | NaN \<Rightarrow> if is_float_kind k then Inr NaN else Inl NotModelled
      | _ \<Rightarrow> Inl NotModelled)"

definition num_operand :: "pd_dtype \<Rightarrow> np_kind \<Rightarrow> nat \<Rightarrow> opnd \<Rightarrow> error + cell list" where
  "num_operand d k n v =
     (if k = k_bool then Inl NotModelled
      else case v of
        Scalar x \<Rightarrow>
          if x = NA \<and> d = Masked k then Inr (replicate n NA)
          else (case num_scalar k x of Inl e \<Rightarrow> Inl e | Inr x' \<Rightarrow> Inr (replicate n x'))
      | Col s \<Rightarrow>
          if ndtype s = d \<and> length (ncells s) = n then Inr (ncells s) else Inl NotModelled)"

definition opnd_slots :: "nat \<Rightarrow> opnd \<Rightarrow> cell list" where
  "opnd_slots n v = (case v of Scalar x \<Rightarrow> replicate n x | Col s \<Rightarrow> ncells s)"

text \<open>The dtype check of an operation, before any slot is computed: the operand's slots
  and the dtype of the result, or the exception.\<close>

definition arith_plan :: "binop \<Rightarrow> pd_dtype \<Rightarrow> nat \<Rightarrow> opnd \<Rightarrow> error + (cell list \<times> pd_dtype)" where
  "arith_plan opr d n v =
     (case d of
        Numpy k \<Rightarrow> (case num_operand d k n v of Inl e \<Rightarrow> Inl e | Inr xs \<Rightarrow> Inr (xs, d))
      | Masked k \<Rightarrow> (case num_operand d k n v of Inl e \<Rightarrow> Inl e | Inr xs \<Rightarrow> Inr (xs, d))
      | Datetime64 tz \<Rightarrow>
          (case opr of
             Mul \<Rightarrow> Inl TypeError
           | Sub \<Rightarrow>
               if is_stamp v then Inr (opnd_slots n v, Timedelta64)
               else if is_delta v then Inr (opnd_slots n v, d)
               else Inl NotModelled
           | RSub \<Rightarrow>
               if is_stamp v then Inr (opnd_slots n v, Timedelta64)
               else if is_delta v then Inl TypeError
               else Inl NotModelled)
      | Timedelta64 \<Rightarrow>
          (case opr of
             Mul \<Rightarrow> if is_int_scalar v then Inr (opnd_slots n v, d) else Inl NotModelled
           | Sub \<Rightarrow>
               if is_delta v then Inr (opnd_slots n v, d)
               else if is_stamp v then Inl TypeError
               else Inl NotModelled
           | RSub \<Rightarrow>
               if is_delta v then Inr (opnd_slots n v, d)
               else if is_stamp v then Inr (opnd_slots n v, Datetime64 None)
               else Inl NotModelled)
      | Object \<Rightarrow> Inl NotModelled)"

definition pd_arith :: "binop \<Rightarrow> native \<Rightarrow> opnd \<Rightarrow> error + native" where
  "pd_arith opr ser v =
     (case arith_plan opr (ndtype ser) (length (ncells ser)) v of
        Inl e \<Rightarrow> Inl e
      | Inr (xs, d') \<Rightarrow>
          (case sequence (map2 (arith_cell opr (ndtype ser)) (ncells ser) xs) of
             Inl e \<Rightarrow> Inl e
           | Inr cs \<Rightarrow> Inr (ser\<lparr>ncells := cs, ndtype := d'\<rparr>)))"

subsection \<open>Binary operators\<close>

text \<open>
  The comparisons, \<open>__and__\<close>, \<open>__or__\<close> and the arithmetic operators share one body:
  \<^verbatim>\<open>
    ser = self.column
    other = validate_column_comparand(self, other)
    return self._from_series((ser OP other).rename(ser.name, copy=False))
  \<close>
  \<open>binary\<close> is that body for a pandas operator \<open>f\<close>.
\<close>

definition binary ::
  "(native \<Rightarrow> opnd \<Rightarrow> error + native) \<Rightarrow> heap \<Rightarrow> Series \<Rightarrow> operand \<Rightarrow> (error + Series) \<times> heap" where
  "binary f h self other =
     (let ser = column h self
      in case validate_column_comparand h self other of
           Inl e \<Rightarrow> (Inl e, h)
         | Inr other \<Rightarrow>
             (case f ser other of
                Inl e \<Rightarrow> (Inl e, h)
              | Inr r \<Rightarrow> from_series h self (pd_rename r (nname ser))))"

text \<open>\<open>__sub__\<close>, \<open>__mul__\<close> and \<open>__rmul__\<close>.\<close>

definition op_sub :: "heap \<Rightarrow> Series \<Rightarrow> operand \<Rightarrow> (error + Series) \<times> heap" where
  "op_sub h self other = binary (pd_arith Sub) h self other"

definition op_mul :: "heap \<Rightarrow> Series \<Rightarrow> operand \<Rightarrow> (error + Series) \<times> heap" where
  "op_mul h self other = binary (pd_arith Mul) h self other"

definition op_rmul :: "heap \<Rightarrow> Series \<Rightarrow> operand \<Rightarrow> (error + Series) \<times> heap" where
  "op_rmul h self other = op_mul h self other"

text \<open>
  \<open>__rsub__\<close> is \<open>-1 * self.__sub__(other)\<close>. Python evaluates the product of the
  integer \<open>-1\<close> and a wrapper by calling the wrapper's \<open>__rmul__\<close> with \<open>-1\<close>.
\<close>

definition op_rsub :: "heap \<Rightarrow> Series \<Rightarrow> operand \<Rightarrow> (error + Series) \<times> heap" where
  "op_rsub h self other =
     and_then (op_sub h self other) (\<lambda>h1 r. op_rmul h1 r (ScalarArg (IntV (- 1))))"

text \<open>
  What \<open>other - column\<close> is, computed by pandas itself (\<open>other - ser\<close>) in the shared
  body of the binary operators: the difference that \<open>__rsub__\<close> stands for.
\<close>

definition reversed_difference :: "heap \<Rightarrow> Series \<Rightarrow> operand \<Rightarrow> (error + Series) \<times> heap" where
  "reversed_difference h self other = binary (pd_arith RSub) h self other"

text \<open>\<open>__rtruediv__\<close>, \<open>__rfloordiv__\<close>, \<open>__rpow__\<close> and \<open>__rmod__\<close> raise at once.\<close>

definition op_rtruediv :: "heap \<Rightarrow> Series \<Rightarrow> operand \<Rightarrow> (error + Series) \<times> heap" where
  "op_rtruediv h self other = (Inl NotImplementedError, h)"

definition op_rfloordiv :: "heap \<Rightarrow> Series \<Rightarrow> operand \<Rightarrow> (error + Series) \<times> heap" where
  "op_rfloordiv h self other = (Inl NotImplementedError, h)"

definition op_rpow :: "heap \<Rightarrow> Series \<Rightarrow> operand \<Rightarrow> (error + Series) \<times> heap" where
  "op_rpow h self other = (Inl NotImplementedError, h)"

definition op_rmod :: "heap \<Rightarrow> Series \<Rightarrow> operand \<Rightarrow> (error + Series) \<times> heap" where
  "op_rmod h self other = (Inl NotImplementedError, h)"

subsection \<open>Methods that only delegate\<close>

text \<open>
  Most transformations are one pandas call on the wrapped column, wrapped again:
  \<^verbatim>\<open>
    ser = self.column
    return self._from_series(ser.CALL(...))
  \<close>
  \<open>unary\<close> is that body for a pandas call \<open>f\<close>. It is the body of \<open>slice_rows\<close>,
  \<open>__invert__\<close>, \<open>sort\<close>, \<open>sorted_indices\<close>, the four \<open>cumulative_...\<close> methods, \<open>alias\<close>,
  \<open>shift\<close>, \<open>cast\<close>, \<open>floor\<close> and the field accessors \<open>year\<close> to \<open>iso_weekday\<close>.
  \<open>validated\<close> is the body of \<open>take\<close>, \<open>filter\<close> and \<open>is_in\<close>, which validate an operand
  first and do not rename the result.
\<close>

definition unary :: "(native \<Rightarrow> error + native) \<Rightarrow> heap \<Rightarrow> Series \<Rightarrow> (error + Series) \<times> heap" where
  "unary f h self =
     (let ser = column h self
      in case f ser of Inl e \<Rightarrow> (Inl e, h) | Inr r \<Rightarrow> from_series h self r)"

definition validated ::
  "(native \<Rightarrow> opnd \<Rightarrow> error + native) \<Rightarrow> heap \<Rightarrow> Series \<Rightarrow> operand \<Rightarrow> (error + Series) \<times> heap" where
  "validated f h self other =
     (let ser = column h self
      in case validate_column_comparand h self other of
           Inl e \<Rightarrow> (Inl e, h)
         | Inr other \<Rightarrow>
             (case f ser other of Inl e \<Rightarrow> (Inl e, h) | Inr r \<Rightarrow> from_series h self r))"

text \<open>\<open>__divmod__\<close>: \<open>quotient = self // other\<close>, \<open>remainder = self - quotient * other\<close>,
  for the floor division \<open>fd\<close> of pandas.\<close>

definition op_divmod ::
  "(native \<Rightarrow> opnd \<Rightarrow> error + native) \<Rightarrow> heap \<Rightarrow> Series \<Rightarrow> operand
     \<Rightarrow> (error + Series \<times> Series) \<times> heap" where
  "op_divmod fd h self other =
     and_then (binary fd h self other) (\<lambda>h1 quotient.
       and_then (op_mul h1 quotient other) (\<lambda>h2 product.
         and_then (op_sub h2 self (SeriesArg product)) (\<lambda>h3 remainder.
           (Inr (quotient, remainder), h3))))"

subsection \<open>Slicing and the cumulative maximum\<close>

text \<open>
  The positions \<open>start:stop:step\<close> selects in a sequence of \<open>n\<close> items, as Python
  computes them: a missing step is 1, a zero step raises \<open>ValueError\<close>, negative bounds
  count from the end, and bounds are clipped to the sequence.
\<close>

definition py_slice_indices ::
  "nat \<Rightarrow> int option \<Rightarrow> int option \<Rightarrow> int option \<Rightarrow> error + nat list" where
  "py_slice_indices n start stop step =
     (let len = int n; st = (case step of None \<Rightarrow> 1 | Some k \<Rightarrow> k)
      in if st = 0 then Inl ValueError
         else
           (let lower = (if st < 0 then - 1 else 0);
                upper = (if st < 0 then len - 1 else len);
                clip = (\<lambda>i. if i < 0 then max (i + len) lower else min i upper);
                b = (case start of None \<Rightarrow> (if st < 0 then upper else lower) | Some i \<Rightarrow> clip i);
                e = (case stop of None \<Rightarrow> (if st < 0 then lower else upper) | Some i \<Rightarrow> clip i);
                cnt = (if st < 0 then (if e < b then (b - e - 1) div (- st) + 1 else 0)
                       else (if b < e then (e - b - 1) div st + 1 else 0))
            in Inr (map (\<lambda>j. nat (b + int j * st)) [0..<nat cnt])))"

text \<open>\<open>ser.iloc[start:stop:step]\<close>.\<close>

definition pd_iloc_slice ::
  "native \<Rightarrow> int option \<Rightarrow> int option \<Rightarrow> int option \<Rightarrow> error + native" where
  "pd_iloc_slice ser start stop step =
     (case py_slice_indices (length (ncells ser)) start stop step of
        Inl e \<Rightarrow> Inl e
      | Inr js \<Rightarrow>
          Inr (ser\<lparr>ncells := map (\<lambda>j. ncells ser ! j) js,
                   nindex := map (\<lambda>j. nindex ser ! j) js\<rparr>))"

definition slice_rows ::
  "heap \<Rightarrow> Series \<Rightarrow> int option \<Rightarrow> int option \<Rightarrow> int option \<Rightarrow> (error + Series) \<times> heap" where
  "slice_rows h self start stop step =
     unary (\<lambda>ser. pd_iloc_slice ser start stop step) h self"

text \<open>
  \<open>ser.cummax()\<close> with its default \<open>skipna=True\<close>: a missing slot stays missing and
  leaves the running maximum as it is. \<open>np.maximum\<close> propagates a \<open>NaN\<close> that is not
  missing (a \<open>NaN\<close> stored in a masked float column).
\<close>

definition max_cell :: "cell \<Rightarrow> cell \<Rightarrow> cell" where
  "max_cell a c =
     (case (a, c) of
        (IntV i, IntV j) \<Rightarrow> IntV (max i j)
      | (FloatV p, FloatV q) \<Rightarrow> FloatV (max p q)
      | (BoolV x, BoolV y) \<Rightarrow> BoolV (x \<or> y)
      | (Timestamp s, Timestamp t) \<Rightarrow> Timestamp (max s t)
      | (Timedelta s, Timedelta t) \<Rightarrow> Timedelta (max s t)
      | _ \<Rightarrow> NaN)"

fun cummax_cells :: "pd_dtype \<Rightarrow> cell option \<Rightarrow> cell list \<Rightarrow> cell list" where
  "cummax_cells d acc [] = []"
| "cummax_cells d acc (c # cs) =
     (if isna_cell d c then c # cummax_cells d acc cs
      else (let m = (case acc of None \<Rightarrow> c | Some a \<Rightarrow> max_cell a c)
            in m # cummax_cells d (Some m) cs))"

definition pd_cummax :: "native \<Rightarrow> error + native" where
  "pd_cummax ser =
     (if ndtype ser = Object then Inl NotModelled
      else Inr (ser\<lparr>ncells := cummax_cells (ndtype ser) None (ncells ser)\<rparr>))"

definition cumulative_max :: "heap \<Rightarrow> Series \<Rightarrow> bool \<Rightarrow> (error + Series) \<times> heap" where
  "cumulative_max h self skip_nulls = unary pd_cummax h self"

subsection \<open>Reductions\<close>

text \<open>
  Each reduction hands the column to the pandas reduction of the same kind. What pandas
  computes is a parameter here: the record holds the pandas reductions (\<open>ser.any()\<close>,
  ..., \<open>ser.std(ddof=...)\<close>, \<open>ser.nunique()\<close>), each from a Series (and, for \<open>std\<close> and
  \<open>var\<close>, the \<open>ddof\<close> argument) to a scalar or an exception.
\<close>

record pandas_reductions =
  pd_any :: "native \<Rightarrow> error + cell"
  pd_all :: "native \<Rightarrow> error + cell"
  pd_min :: "native \<Rightarrow> error + cell"
  pd_max :: "native \<Rightarrow> error + cell"
  pd_sum :: "native \<Rightarrow> error + cell"
  pd_prod :: "native \<Rightarrow> error + cell"
  pd_median :: "native \<Rightarrow> error + cell"
  pd_mean :: "native \<Rightarrow> error + cell"
  pd_std :: "native \<Rightarrow> cell \<Rightarrow> error + cell"
  pd_var :: "native \<Rightarrow> cell \<Rightarrow> error + cell"
  pd_nunique :: "native \<Rightarrow> error + cell"

text \<open>
  \<open>std\<close>, \<open>var\<close> and \<open>n_unique\<close> pass the pandas result through \<open>self._to_scalar\<close>, a
  method the class file does not define; it is the parameter \<open>to_scalar\<close>. A
  reduction reads the store and returns a scalar: it creates no object a caller can
  reach, so it returns no store.
\<close>

definition any' :: "pandas_reductions \<Rightarrow> heap \<Rightarrow> Series \<Rightarrow> bool \<Rightarrow> error + cell" where
  "any' P h self skip_nulls = (let ser = column h self in pd_any P ser)"

definition all' :: "pandas_reductions \<Rightarrow> heap \<Rightarrow> Series \<Rightarrow> bool \<Rightarrow> error + cell" where
  "all' P h self skip_nulls = (let ser = column h self in pd_all P ser)"

definition min' :: "pandas_reductions \<Rightarrow> heap \<Rightarrow> Series \<Rightarrow> bool \<Rightarrow> error + cell" where
  "min' P h self skip_nulls = (let ser = column h self in pd_min P ser)"

definition max' :: "pandas_reductions \<Rightarrow> heap \<Rightarrow> Series \<Rightarrow> bool \<Rightarrow> error + cell" where
  "max' P h self skip_nulls = (let ser = column h self in pd_max P ser)"

definition sum' :: "pandas_reductions \<Rightarrow> heap \<Rightarrow> Series \<Rightarrow> bool \<Rightarrow> error + cell" where
  "sum' P h self skip_nulls = (let ser = column h self in pd_sum P ser)"

definition prod' :: "pandas_reductions \<Rightarrow> heap \<Rightarrow> Series \<Rightarrow> bool \<Rightarrow> error + cell" where
  "prod' P h self skip_nulls = (let ser = column h self in pd_prod P ser)"

definition median :: "pandas_reductions \<Rightarrow> heap \<Rightarrow> Series \<Rightarrow> bool \<Rightarrow> error + cell" where
  "median P h self skip_nulls = (let ser = column h self in pd_median P ser)"

definition mean :: "pandas_reductions \<Rightarrow> heap \<Rightarrow> Series \<Rightarrow> bool \<Rightarrow> error + cell" where
  "mean P h self skip_nulls = (let ser = column h self in pd_mean P ser)"

definition std ::
  "pandas_reductions \<Rightarrow> (cell \<Rightarrow> error + cell) \<Rightarrow> heap \<Rightarrow> Series \<Rightarrow> cell \<Rightarrow> bool \<Rightarrow> error + cell" where
  "std P to_scalar h self correction skip_nulls =
     (let ser = column h self
      in case pd_std P ser correction of Inl e \<Rightarrow> Inl e | Inr x \<Rightarrow> to_scalar x)"

definition var ::
  "pandas_reductions \<Rightarrow> (cell \<Rightarrow> error + cell) \<Rightarrow> heap \<Rightarrow> Series \<Rightarrow> cell \<Rightarrow> bool \<Rightarrow> error + cell" where
  "var P to_scalar h self correction skip_nulls =
     (let ser = column h self
      in case pd_var P ser correction of Inl e \<Rightarrow> Inl e | Inr x \<Rightarrow> to_scalar x)"

definition n_unique ::
  "pandas_reductions \<Rightarrow> (cell \<Rightarrow> error + cell) \<Rightarrow> heap \<Rightarrow> Series \<Rightarrow> bool \<Rightarrow> error + cell" where
  "n_unique P to_scalar h self skip_nulls =
     (let ser = column h self
      in case pd_nunique P ser of Inl e \<Rightarrow> Inl e | Inr x \<Rightarrow> to_scalar x)"

subsection \<open>\<open>dtype\<close> and \<open>cast\<close>\<close>

text \<open>The standard dtypes.\<close>

datatype DType =
    Int64 | Int32 | Int16 | Int8
  | UInt64 | UInt32 | UInt16 | UInt8
  | Bool
  | Float64 | Float32

definition kind_of :: "DType \<Rightarrow> np_kind" where
  "kind_of t =
     (case t of
        Int64 \<Rightarrow> k_int64 | Int32 \<Rightarrow> k_int32 | Int16 \<Rightarrow> k_int16 | Int8 \<Rightarrow> k_int8
      | UInt64 \<Rightarrow> k_uint64 | UInt32 \<Rightarrow> k_uint32 | UInt16 \<Rightarrow> k_uint16 | UInt8 \<Rightarrow> k_uint8
      | Bool \<Rightarrow> k_bool
      | Float64 \<Rightarrow> k_float64 | Float32 \<Rightarrow> k_float32)"

definition standard_of :: "np_kind \<Rightarrow> DType" where
  "standard_of k =
     (case k of
        k_int64 \<Rightarrow> Int64 | k_int32 \<Rightarrow> Int32 | k_int16 \<Rightarrow> Int16 | k_int8 \<Rightarrow> Int8
      | k_uint64 \<Rightarrow> UInt64 | k_uint32 \<Rightarrow> UInt32 | k_uint16 \<Rightarrow> UInt16 | k_uint8 \<Rightarrow> UInt8
      | k_bool \<Rightarrow> Bool
      | k_float64 \<Rightarrow> Float64 | k_float32 \<Rightarrow> Float32)"

text \<open>
  Modelled from the spec: the two dtype tables \<open>map_standard_dtype_to_pandas_dtype\<close>
  and \<open>map_pandas_dtype_to_standard_dtype\<close> of \<open>polars_api_compat.pandas\<close> are not part
  of the class file. By the specification they are pure lookups over the enumerated
  standard tags Int8 to UInt64, Float32, Float64 and Boolean; every tag is mapped to
  exactly one native dtype; the nullable variant of a native dtype carries the same
  tag; and an unmapped native dtype fails with \<open>UnsupportedDTypeError\<close>.
\<close>

definition map_standard_dtype_to_pandas_dtype :: "DType \<Rightarrow> pd_dtype" where
  "map_standard_dtype_to_pandas_dtype t = Numpy (kind_of t)"

definition map_pandas_dtype_to_standard_dtype :: "pd_dtype \<Rightarrow> error + DType" where
  "map_pandas_dtype_to_standard_dtype d =
     (case d of
        Numpy k \<Rightarrow> Inr (standard_of k)
      | Masked k \<Rightarrow> Inr (standard_of k)
      | _ \<Rightarrow> Inl UnsupportedDTypeError)"

text \<open>The property \<open>dtype\<close>.\<close>

definition dtype :: "heap \<Rightarrow> Series \<Rightarrow> error + DType" where
  "dtype h self = map_pandas_dtype_to_standard_dtype (ndtype (column h self))"

text \<open>
  \<open>ser.astype(d)\<close> converts every slot and gives a Series of dtype \<open>d\<close>, or raises. How
  pandas converts the slots is the parameter \<open>conv\<close>.
\<close>

definition pd_astype ::
  "(native \<Rightarrow> pd_dtype \<Rightarrow> error + cell list) \<Rightarrow> native \<Rightarrow> pd_dtype \<Rightarrow> error + native" where
  "pd_astype conv ser d =
     (case conv ser d of Inl e \<Rightarrow> Inl e | Inr cs \<Rightarrow> Inr (ser\<lparr>ncells := cs, ndtype := d\<rparr>))"

definition cast ::
  "(native \<Rightarrow> pd_dtype \<Rightarrow> error + cell list) \<Rightarrow> heap \<Rightarrow> Series \<Rightarrow> DType \<Rightarrow> (error + Series) \<times> heap" where
  "cast conv h self t =
     (let pandas_dtype = map_standard_dtype_to_pandas_dtype t
      in unary (\<lambda>ser. pd_astype conv ser pandas_dtype) h self)"

subsection \<open>\<open>unix_timestamp\<close>\<close>

text \<open>
  The pandas and numpy calls of \<open>unix_timestamp\<close>, on the timedelta column \<open>result\<close>
  and on the float and integer columns computed from it.

  \<open>ser - datetime(1970, 1, 1)\<close>: a timestamp is stored as its distance from that day, so
  the difference has the same nanosecond count; \<open>NaT\<close> stays \<open>NaT\<close>.
  \<open>tz_convert("UTC")\<close> and \<open>tz_localize(None)\<close> change the dtype and leave the stored
  counts, which are in UTC already.
\<close>

definition minus_epoch :: "native \<Rightarrow> native" where
  "minus_epoch ser =
     ser\<lparr>ncells := map (\<lambda>c. case c of Timestamp t \<Rightarrow> Timedelta t | _ \<Rightarrow> NA) (ncells ser),
         ndtype := Timedelta64\<rparr>"

definition tz_convert_utc :: "native \<Rightarrow> native" where
  "tz_convert_utc ser = ser\<lparr>ndtype := Datetime64 (Some ''UTC'')\<rparr>"

definition tz_localize_none :: "native \<Rightarrow> native" where
  "tz_localize_none ser = ser\<lparr>ndtype := Datetime64 None\<rparr>"

text \<open>
  \<open>result.dt.total_seconds()\<close> is the float64 division of the 64-bit nanosecond counts by
  \<open>10 ** 9\<close>: the count is converted to float64, then divided. \<open>NaT\<close> gives \<open>NaN\<close>.
\<close>

definition dt_total_seconds :: "native \<Rightarrow> native" where
  "dt_total_seconds ser =
     ser\<lparr>ncells :=
           map (\<lambda>c. case c of
                       Timedelta t \<Rightarrow> FloatV (fl (fl (of_int t) / 1000000000))
                     | _ \<Rightarrow> NaN) (ncells ser),
         ndtype := Numpy k_float64\<rparr>"

definition astype_float64 :: "native \<Rightarrow> native" where
  "astype_float64 ser =
     ser\<lparr>ncells := map (\<lambda>c. case c of IntV i \<Rightarrow> FloatV (fl (of_int i)) | NA \<Rightarrow> NaN | _ \<Rightarrow> c) (ncells ser),
         ndtype := Numpy k_float64\<rparr>"

definition np_floor :: "native \<Rightarrow> native" where
  "np_floor ser =
     ser\<lparr>ncells := map (\<lambda>c. case c of FloatV q \<Rightarrow> FloatV (of_int \<lfloor>q\<rfloor>) | _ \<Rightarrow> c) (ncells ser)\<rparr>"

text \<open>
  \<open>result.dt.microseconds\<close> and \<open>result.dt.nanoseconds\<close>: the microseconds within the
  second (0 to 999999) and the nanoseconds within the microsecond (0 to 999), both
  counted from the floor, also for negative timedeltas. At \<open>NaT\<close> they are \<open>NaN\<close>.
\<close>

definition dt_microseconds :: "native \<Rightarrow> native" where
  "dt_microseconds ser =
     ser\<lparr>ncells :=
           map (\<lambda>c. case c of Timedelta t \<Rightarrow> IntV ((t div 1000) mod 1000000) | _ \<Rightarrow> NaN)
             (ncells ser),
         ndtype := Numpy k_int64\<rparr>"

definition dt_nanoseconds :: "native \<Rightarrow> native" where
  "dt_nanoseconds ser =
     ser\<lparr>ncells := map (\<lambda>c. case c of Timedelta t \<Rightarrow> IntV (t mod 1000) | _ \<Rightarrow> NaN) (ncells ser),
         ndtype := Numpy k_int64\<rparr>"

text \<open>
  Arithmetic of these columns with a Python integer and with each other. A float slot
  is rounded after each operation; an integer slot wraps around at 64 bits; a float
  and an integer give a float; \<open>NaN\<close> and \<open>NA\<close> propagate.
\<close>

definition mul_int :: "native \<Rightarrow> int \<Rightarrow> native" where
  "mul_int ser j =
     ser\<lparr>ncells :=
           map (\<lambda>c. case c of
                       FloatV q \<Rightarrow> FloatV (fl (q * of_int j))
                     | IntV i \<Rightarrow> IntV (wrap k_int64 (i * j))
                     | _ \<Rightarrow> c) (ncells ser)\<rparr>"

definition floordiv_int :: "native \<Rightarrow> int \<Rightarrow> native" where
  "floordiv_int ser j =
     ser\<lparr>ncells :=
           map (\<lambda>c. case c of
                       FloatV q \<Rightarrow> FloatV (of_int \<lfloor>q / of_int j\<rfloor>)
                     | IntV i \<Rightarrow> IntV (i div j)
                     | _ \<Rightarrow> c) (ncells ser)\<rparr>"

definition add_cell :: "cell \<Rightarrow> cell \<Rightarrow> cell" where
  "add_cell a b =
     (case (a, b) of
        (FloatV p, FloatV q) \<Rightarrow> FloatV (fl (p + q))
      | (FloatV p, IntV j) \<Rightarrow> FloatV (fl (p + of_int j))
      | (IntV i, FloatV q) \<Rightarrow> FloatV (fl (of_int i + q))
      | (IntV i, IntV j) \<Rightarrow> IntV (wrap k_int64 (i + j))
      | _ \<Rightarrow> (if a = NA \<or> b = NA then NA else NaN))"

definition add_series :: "native \<Rightarrow> native \<Rightarrow> native" where
  "add_series ser other =
     ser\<lparr>ncells := map2 add_cell (ncells ser) (ncells other),
         ndtype := (if ndtype other = Numpy k_float64 then Numpy k_float64 else ndtype ser)\<rparr>"

text \<open>\<open>.astype("Int64")\<close> of a column of whole numbers: \<open>NaN\<close> becomes \<open>NA\<close>.\<close>

definition astype_Int64 :: "native \<Rightarrow> native" where
  "astype_Int64 ser =
     ser\<lparr>ncells := map (\<lambda>c. case c of FloatV q \<Rightarrow> IntV \<lfloor>q\<rfloor> | NaN \<Rightarrow> NA | _ \<Rightarrow> c) (ncells ser),
         ndtype := Masked k_int64\<rparr>"

text \<open>\<open>pd.Series(values, name=...)\<close> of a Series \<open>values\<close>.\<close>

definition pd_Series :: "native \<Rightarrow> string option \<Rightarrow> native" where
  "pd_Series vals n = vals\<lparr>nname := n\<rparr>"

text \<open>
  The method itself. \<open>ser.dt\<close> raises \<open>AttributeError\<close> on a column that is not
  datetime-like, and \<open>ser.dt.tz\<close> on a timedelta column.
\<close>

definition unix_timestamp :: "heap \<Rightarrow> Series \<Rightarrow> string \<Rightarrow> (error + Series) \<times> heap" where
  "unix_timestamp h self time_unit =
     (let ser = column h self
      in case ndtype ser of
           Datetime64 tz \<Rightarrow>
             (let result =
                    (if tz = None then minus_epoch ser
                     else minus_epoch (tz_localize_none (tz_convert_utc ser)))
              in if time_unit = ''s'' then
                   from_series h self
                     (pd_Series (np_floor (astype_float64 (dt_total_seconds result))) (nname ser))
                 else if time_unit = ''ms'' then
                   from_series h self
                     (pd_Series
                        (np_floor
                           (add_series (mul_int (np_floor (dt_total_seconds result)) 1000)
                              (floordiv_int (dt_microseconds result) 1000)))
                        (nname ser))
                 else if time_unit = ''us'' then
                   from_series h self
                     (pd_Series
                        (add_series (mul_int (np_floor (dt_total_seconds result)) 1000000)
                           (dt_microseconds result))
                        (nname ser))
                 else if time_unit = ''ns'' then
                   from_series h self
                     (pd_Series
                        (add_series
                           (mul_int
                              (add_series
                                 (mul_int (astype_Int64 (np_floor (dt_total_seconds result))) 1000000)
                                 (astype_Int64 (dt_microseconds result)))
                              1000)
                           (astype_Int64 (dt_nanoseconds result)))
                        (nname ser))
                 else (Inl AssertionError, h))
         | _ \<Rightarrow> (Inl AttributeError, h))"

subsection \<open>Every transformation\<close>

text \<open>
  The methods of the class that return a column, with their arguments: the delegating
  bodies for any pandas call, the methods that raise at once (\<open>__iter__\<close>, the four
  unsupported reflected operators, \<open>unique_indices\<close>), and the methods with a body of
  their own. \<open>__rand__\<close>, \<open>__ror__\<close>, \<open>__radd__\<close> and \<open>__rmul__\<close> call the forward
  operator, which is a \<open>Binary\<close>.
\<close>

datatype transformation =
    Unary "native \<Rightarrow> error + native"
  | Binary "native \<Rightarrow> opnd \<Rightarrow> error + native" operand
  | Validated "native \<Rightarrow> opnd \<Rightarrow> error + native" operand
  | Raising
  | Is_null
  | Is_nan
  | Fill_nan cell
  | Fill_null operand
  | Rsub operand
  | Unix_timestamp string

definition call :: "transformation \<Rightarrow> heap \<Rightarrow> Series \<Rightarrow> (error + Series) \<times> heap" where
  "call m h self =
     (case m of
        Unary f \<Rightarrow> unary f h self
      | Binary f other \<Rightarrow> binary f h self other
      | Validated f other \<Rightarrow> validated f h self other
      | Raising \<Rightarrow> (Inl NotImplementedError, h)
      | Is_null \<Rightarrow> is_null h self
      | Is_nan \<Rightarrow> is_nan h self
      | Fill_nan v \<Rightarrow> fill_nan h self v
      | Fill_null v \<Rightarrow> fill_null h self v
      | Rsub other \<Rightarrow> op_rsub h self other
      | Unix_timestamp time_unit \<Rightarrow> unix_timestamp h self time_unit)"

subsection \<open>Notions the properties are stated with\<close>

text \<open>A datetime dtype, with or without a time zone.\<close>

definition is_datetime :: "pd_dtype \<Rightarrow> bool" where
  "is_datetime d = (case d of Datetime64 tz \<Rightarrow> True | _ \<Rightarrow> False)"

text \<open>Two boolean columns are disjoint when no position is true in both.\<close>

definition disjoint_masks :: "cell list \<Rightarrow> cell list \<Rightarrow> bool" where
  "disjoint_masks xs ys = (\<not> list_ex (\<lambda>(x, y). x = BoolV True \<and> y = BoolV True) (zip xs ys))"

text \<open>
  \<open>stable h h'\<close>: every object of the store \<open>h\<close> is in \<open>h'\<close>, at its address, with the
  content it had. \<open>fresh h h' r\<close>: the wrapper \<open>r\<close> refers to an object of \<open>h'\<close> that \<open>h\<close> did
  not have. \<open>extends\<close> puts the two together for the outcome of a method, and
  \<open>extends2\<close> for a method that returns two columns.
\<close>

definition stable :: "heap \<Rightarrow> heap \<Rightarrow> bool" where
  "stable h h' = (take (length h) h' = h)"

definition fresh :: "heap \<Rightarrow> heap \<Rightarrow> Series \<Rightarrow> bool" where
  "fresh h h' r = (length h \<le> series r \<and> series r < length h')"

definition extends :: "heap \<Rightarrow> (error + Series) \<times> heap \<Rightarrow> bool" where
  "extends h r =
     (stable h (snd r) \<and> (case fst r of Inl e \<Rightarrow> True | Inr c \<Rightarrow> fresh h (snd r) c))"

definition extends2 :: "heap \<Rightarrow> (error + Series \<times> Series) \<times> heap \<Rightarrow> bool" where
  "extends2 h r =
     (stable h (snd r) \<and>
      (case fst r of Inl e \<Rightarrow> True | Inr (q, m) \<Rightarrow> fresh h (snd r) q \<and> fresh h (snd r) m))"

text \<open>The reverse-order cumulative maximum: reverse the column, take the cumulative
  maximum, reverse again.\<close>

definition reverse_cumulative_max :: "heap \<Rightarrow> Series \<Rightarrow> (error + Series) \<times> heap" where
  "reverse_cumulative_max h self =
     and_then (slice_rows h self None None (Some (- 1))) (\<lambda>h1 reversed.
       and_then (cumulative_max h1 reversed True) (\<lambda>h2 cum.
         slice_rows h2 cum None None (Some (- 1))))"

text \<open>
  Example columns. The column \<open>a = [1, 3, None, 2]\<close> is a nullable \<open>Int64\<close> column with
  \<open>NA\<close> in its third slot, or, as pandas builds it by default, a \<open>float64\<close> column with
  \<open>NaN\<close> there.
\<close>

definition col_a :: Series where
  "col_a = \<lparr>name = ''a'', series = 0, api_version = ''2023.11-beta''\<rparr>"

definition a_nullable :: native where
  "a_nullable =
     \<lparr>ncells = [IntV 1, IntV 3, NA, IntV 2], ndtype = Masked k_int64,
      nname = Some ''a'', nindex = [0, 1, 2, 3]\<rparr>"

definition a_float :: native where
  "a_float =
     \<lparr>ncells = [FloatV 1, FloatV 3, NaN, FloatV 2], ndtype = Numpy k_float64,
      nname = Some ''a'', nindex = [0, 1, 2, 3]\<rparr>"

text \<open>A nullable float column with a missing slot and a \<open>NaN\<close>.\<close>

definition a_masked_float :: native where
  "a_masked_float =
     \<lparr>ncells = [NA, NaN, FloatV 1], ndtype = Masked k_float64,
      nname = Some ''a'', nindex = [0, 1, 2]\<rparr>"

text \<open>A time-zone-aware datetime column with a \<open>NaT\<close>: \<open>[NaT, 2020-01-01T00:00Z]\<close>.\<close>

definition a_tz_aware :: native where
  "a_tz_aware =
     \<lparr>ncells = [NA, Timestamp 1577836800000000000], ndtype = Datetime64 (Some ''UTC''),
      nname = Some ''a'', nindex = [0, 1]\<rparr>"

text \<open>Two instants one nanosecond apart: 2023-11-14T22:13:20.999999999 and
  2023-11-14T22:13:21.\<close>

definition a_instants :: native where
  "a_instants =
     \<lparr>ncells = [Timestamp 1700000000999999999, Timestamp 1700000001000000000],
      ndtype = Datetime64 None, nname = Some ''a'', nindex = [0, 1]\<rparr>"

text \<open>A timedelta column holding one day, and an unsigned 8-bit column holding 1.\<close>

definition a_one_day :: native where
  "a_one_day =
     \<lparr>ncells = [Timedelta 86400000000000], ndtype = Timedelta64,
      nname = Some ''a'', nindex = [0]\<rparr>"

definition a_uint8 :: native where
  "a_uint8 =
     \<lparr>ncells = [IntV 1], ndtype = Numpy k_uint8, nname = Some ''a'', nindex = [0]\<rparr>"

text \<open>A slot conversion for \<open>astype\<close> that keeps slots every target dtype can hold.\<close>

definition keep_cells :: "native \<Rightarrow> pd_dtype \<Rightarrow> error + cell list" where
  "keep_cells ser d = Inr (ncells ser)"

text \<open>A scalar is compatible with a dtype when it is a value the dtype holds and is
  not itself missing.\<close>

definition compatible :: "pd_dtype \<Rightarrow> cell \<Rightarrow> bool" where
  "compatible d v = (v \<noteq> NA \<and> v \<noteq> NaN \<and> cell_ok d v)"

section \<open>Properties\<close>

subsection \<open>Lists, and wrapping a pandas Series\<close>

lemma map2_same: "map2 f xs xs = map (\<lambda>x. f x x) xs"
  by (induction xs) auto

lemma map2_replicate: "n = length xs \<Longrightarrow> map2 f xs (replicate n v) = map (\<lambda>x. f x v) xs"
  by (induction xs arbitrary: n) auto

lemma map2_map_map: "map2 f (map g xs) (map k xs) = map (\<lambda>x. f (g x) (k x)) xs"
  by (induction xs) auto

lemma zip3_map:
  "n = length cs \<Longrightarrow>
   map (\<lambda>(c, m, x). g c m x) (zip cs (zip (map f cs) (replicate n v))) = map (\<lambda>c. g c (f c) v) cs"
  by (induction cs arbitrary: n) auto

lemma sequence_map:
  "(\<And>x. x \<in> set xs \<Longrightarrow> f x = Inr (g x)) \<Longrightarrow> sequence (map f xs) = Inr (map g xs)"
  by (induction xs) simp_all

lemma update_newest: "(h @ [a, r])[Suc (length h) := x] = h @ [a, x]"
  by (simp add: list_update_append)

lemma from_series_named:
  "nname ser = Some n \<Longrightarrow>
   from_series h self ser =
     (Inr \<lparr>name = n, series = length h, api_version = api_version self\<rparr>, h @ [ser])"
  by (simp add: from_series_def alloc_def init_def pd_rename_def)

lemma result_cells_from_series:
  "nname ser = Some n \<Longrightarrow> result_cells (from_series h self ser) = Inr (ncells ser)"
  by (simp add: from_series_named result_cells_def column_def)

lemma from_series_store: "snd (from_series h self ser) = h @ [ser]"
  by (simp add: from_series_def alloc_def pd_rename_def)

lemma from_series_fresh:
  "fst (from_series h self ser) = Inr r \<Longrightarrow> series r = length h"
  by (auto simp: from_series_def alloc_def init_def pd_rename_def split: option.splits)

subsection \<open>Reflected operators that are not supported\<close>

text \<open>
  C4. For every column and every right-hand operand, each of \<open>__rtruediv__\<close>,
  \<open>__rfloordiv__\<close>, \<open>__rpow__\<close> and \<open>__rmod__\<close> fails with \<open>NotImplementedError\<close>; the
  outcome does not depend on the wrapped value or on the operand, and the store is
  returned as it was.
\<close>

theorem reverse_operators_not_implemented:
  "op_rtruediv h c v = (Inl NotImplementedError, h)
   \<and> op_rfloordiv h c v = (Inl NotImplementedError, h)
   \<and> op_rpow h c v = (Inl NotImplementedError, h)
   \<and> op_rmod h c v = (Inl NotImplementedError, h)"
  by (simp add: op_rtruediv_def op_rfloordiv_def op_rpow_def op_rmod_def)

subsection \<open>Reductions ignore \<open>skip_nulls\<close>\<close>

text \<open>
  C5. For every column and each of the reductions sum, mean, std, var, min, max, any,
  all, median, prod and n_unique, the result with \<open>skip_nulls=True\<close> equals the result
  with \<open>skip_nulls=False\<close>, whatever the pandas reductions (and \<open>_to_scalar\<close>) compute.
\<close>

theorem skip_nulls_has_no_effect:
  "sum' P h c True = sum' P h c False
   \<and> mean P h c True = mean P h c False
   \<and> std P to_scalar h c correction True = std P to_scalar h c correction False
   \<and> var P to_scalar h c correction True = var P to_scalar h c correction False
   \<and> min' P h c True = min' P h c False
   \<and> max' P h c True = max' P h c False
   \<and> any' P h c True = any' P h c False
   \<and> all' P h c True = all' P h c False
   \<and> median P h c True = median P h c False
   \<and> prod' P h c True = prod' P h c False
   \<and> n_unique P to_scalar h c True = n_unique P to_scalar h c False"
  by (simp add: sum'_def mean_def std_def var_def min'_def max'_def any'_def all'_def
      median_def prod'_def n_unique_def)

subsection \<open>The cumulative maximum of \<open>[1, 3, None, 2]\<close>\<close>

text \<open>
  C9. For the column \<open>a = [1, 3, None, 2]\<close>, \<open>cumulative_max\<close> yields \<open>[1, 3, None, 3]\<close>,
  and reversing, taking the cumulative maximum and reversing again yields
  \<open>[3, 3, None, 2]\<close>; so it is for the nullable integer column and for the float column
  whose missing slot is \<open>NaN\<close>.
\<close>

theorem cumulative_max_example:
  "result_cells (cumulative_max [a_nullable] col_a True) = Inr [IntV 1, IntV 3, NA, IntV 3]
   \<and> result_cells (reverse_cumulative_max [a_nullable] col_a) = Inr [IntV 3, IntV 3, NA, IntV 2]
   \<and> result_cells (cumulative_max [a_float] col_a True) = Inr [FloatV 1, FloatV 3, NaN, FloatV 3]
   \<and> result_cells (reverse_cumulative_max [a_float] col_a) = Inr [FloatV 3, FloatV 3, NaN, FloatV 2]"
  unfolding a_nullable_def a_float_def col_a_def by code_simp

subsection \<open>No transformation changes an existing pandas object\<close>

text \<open>
  Every method leaves the store it was given as a prefix of the store it returns:
  wrapping appends an object, and the two methods that assign do so at the address of
  an object they appended.
\<close>

lemma stable_refl: "stable h h"
  by (simp add: stable_def)

lemma stable_length:
  assumes "stable h h'"
  shows "length h \<le> length h'"
proof -
  from assms have "take (length h) h' = h" by (simp add: stable_def)
  then have "length (take (length h) h') = length h" by (rule arg_cong)
  then show ?thesis by simp
qed

lemma stable_trans: "stable h h1 \<Longrightarrow> stable h1 h2 \<Longrightarrow> stable h h2"
proof -
  assume a: "stable h h1" and b: "stable h1 h2"
  from a have le: "length h \<le> length h1" by (rule stable_length)
  have "take (length h) h2 = take (length h) (take (length h1) h2)"
    using le by (simp add: min_def)
  also have "\<dots> = take (length h) h1" using b by (simp add: stable_def)
  also have "\<dots> = h" using a by (simp add: stable_def)
  finally show ?thesis by (simp add: stable_def)
qed

lemma stable_append: "stable h (h @ xs)"
  by (simp add: stable_def)

lemma stable_update: "stable h h' \<Longrightarrow> length h \<le> a \<Longrightarrow> stable h (h'[a := v])"
  by (simp add: stable_def)

lemma fresh_mono: "stable h h1 \<Longrightarrow> fresh h1 h2 r \<Longrightarrow> fresh h h2 r"
  using stable_length [of h h1] by (simp add: fresh_def)

lemma fresh_later: "fresh h h1 r \<Longrightarrow> stable h1 h2 \<Longrightarrow> fresh h h2 r"
  using stable_length [of h1 h2] by (simp add: fresh_def)

lemma stable_column:
  assumes "stable h h'" and "series c < length h"
  shows "column h' c = column h c"
proof -
  from assms(1) have t: "take (length h) h' = h" by (simp add: stable_def)
  have "take (length h) h' ! series c = h' ! series c" using assms(2) by (rule nth_take)
  with t show ?thesis by (simp add: column_def)
qed

lemma extends_raise: "extends h (Inl e, h)"
  by (simp add: extends_def stable_refl)

lemma extends_raise_later: "stable h h1 \<Longrightarrow> extends h (Inl e, h1)"
  by (simp add: extends_def)

lemma extends_from_series: "extends h (from_series h self ser)"
  by (auto simp: extends_def from_series_store stable_append fresh_def
      dest: from_series_fresh split: sum.splits)

lemma extends_trans:
  assumes "stable h h1" and "extends h1 r"
  shows "extends h r"
proof -
  from assms(2) have s: "stable h1 (snd r)" by (simp add: extends_def)
  have st: "stable h (snd r)" by (rule stable_trans [OF assms(1) s])
  show ?thesis
  proof (cases "fst r")
    case (Inl e)
    with st show ?thesis by (simp add: extends_def)
  next
    case (Inr c)
    with assms(2) have "fresh h1 (snd r) c" by (simp add: extends_def)
    then have "fresh h (snd r) c" by (rule fresh_mono [OF assms(1)])
    with st Inr show ?thesis by (simp add: extends_def)
  qed
qed

lemma extends_later: "stable h h1 \<Longrightarrow> extends h (from_series h1 self ser)"
  by (rule extends_trans [OF _ extends_from_series])

lemma extends_case_sum:
  "(\<And>e. extends h (f e)) \<Longrightarrow> (\<And>v. extends h (g v)) \<Longrightarrow>
   extends h (case x of Inl e \<Rightarrow> f e | Inr v \<Rightarrow> g v)"
  by (cases x) simp_all

lemma extends_pair: "extends h (res, h1) \<Longrightarrow> stable h h1"
  by (simp add: extends_def)

lemma extends_Inr: "extends h (Inr r, h1) \<Longrightarrow> fresh h h1 r"
  by (simp add: extends_def)

lemma extends_unary: "extends h (unary f h self)"
  by (simp add: unary_def Let_def extends_raise extends_from_series split: sum.splits)

lemma extends_binary: "extends h (binary f h self other)"
  by (simp add: binary_def Let_def extends_raise extends_from_series split: sum.splits)

lemma extends_validated: "extends h (validated f h self other)"
  by (simp add: validated_def Let_def extends_raise extends_from_series split: sum.splits)

lemma extends_and_then:
  assumes "extends h r" and "\<And>h1 x. extends h1 (f h1 x)"
  shows "extends h (and_then r f)"
proof (cases r)
  case (Pair res h1)
  with assms(1) have st: "stable h h1" by (simp add: extends_def)
  show ?thesis
  proof (cases res)
    case (Inl e)
    with Pair st show ?thesis by (simp add: and_then_def extends_raise_later)
  next
    case (Inr x)
    with Pair have "and_then r f = f h1 x" by (simp add: and_then_def)
    with st assms(2) [of h1 x] show ?thesis by (simp add: extends_trans)
  qed
qed

lemma extends_is_null: "extends h (is_null h self)"
  by (simp add: is_null_def Let_def extends_from_series)

lemma extends_is_nan: "extends h (is_nan h self)"
  by (simp add: is_nan_def Let_def extends_raise extends_from_series split: sum.splits)

lemma extends_op_mul: "extends h (op_mul h self other)"
  by (simp add: op_mul_def extends_binary)

lemma extends_op_sub: "extends h (op_sub h self other)"
  by (simp add: op_sub_def extends_binary)

lemma extends_op_rsub: "extends h (op_rsub h self other)"
  unfolding op_rsub_def
  by (rule extends_and_then) (simp_all add: op_sub_def op_rmul_def op_mul_def extends_binary)

lemma extends_unix_timestamp: "extends h (unix_timestamp h self u)"
  by (simp add: unix_timestamp_def Let_def extends_raise extends_from_series
      split: pd_dtype.splits)

lemma extends_fill_nan: "extends h (fill_nan h self v)"
  unfolding fill_nan_def pd_copy_def alloc_def Let_def prod.case
  by (intro extends_case_sum extends_raise_later extends_later)
    (simp_all add: set_index_def stable_update stable_append)

lemma extends_fill_null: "extends h (fill_null h self v)"
  unfolding fill_null_def pd_copy_def alloc_def Let_def prod.case
  by (intro extends_case_sum extends_raise extends_raise_later extends_later)
    (simp_all add: set_index_def stable_update stable_append)

lemma extends_call: "extends h (call m h self)"
  by (cases m)
    (simp_all add: call_def extends_unary extends_binary extends_validated extends_raise
      extends_is_null extends_is_nan extends_fill_nan extends_fill_null extends_op_rsub
      extends_unix_timestamp)

lemma extends2_op_divmod: "extends2 h (op_divmod fd h self other)"
proof -
  obtain res1 h1 where s1: "binary fd h self other = (res1, h1)" by (cases "binary fd h self other")
  with extends_binary [of h fd self other] have e1: "extends h (res1, h1)" by simp
  then have st1: "stable h h1" by (rule extends_pair)
  show ?thesis
  proof (cases res1)
    case (Inl e)
    with s1 st1 show ?thesis by (simp add: op_divmod_def and_then_def extends2_def)
  next
    case q: (Inr quotient)
    from e1 q have f1: "fresh h h1 quotient" by (simp add: extends_Inr)
    obtain res2 h2 where s2: "op_mul h1 quotient other = (res2, h2)"
      by (cases "op_mul h1 quotient other")
    with extends_op_mul [of h1 quotient other] have e2: "extends h1 (res2, h2)" by simp
    then have st12: "stable h1 h2" by (rule extends_pair)
    have st2: "stable h h2" by (rule stable_trans [OF st1 st12])
    show ?thesis
    proof (cases res2)
      case (Inl e)
      with s1 q s2 st2 show ?thesis by (simp add: op_divmod_def and_then_def extends2_def)
    next
      case p: (Inr product)
      obtain res3 h3 where s3: "op_sub h2 self (SeriesArg product) = (res3, h3)"
        by (cases "op_sub h2 self (SeriesArg product)")
      with extends_op_sub [of h2 self "SeriesArg product"] have e3: "extends h2 (res3, h3)"
        by simp
      then have st23: "stable h2 h3" by (rule extends_pair)
      have st3: "stable h h3" by (rule stable_trans [OF st2 st23])
      show ?thesis
      proof (cases res3)
        case (Inl e)
        with s1 q s2 p s3 st3 show ?thesis
          by (simp add: op_divmod_def and_then_def extends2_def)
      next
        case r: (Inr remainder)
        from e3 r have "fresh h2 h3 remainder" by (simp add: extends_Inr)
        then have fr: "fresh h h3 remainder" by (rule fresh_mono [OF st2])
        have "stable h1 h3" by (rule stable_trans [OF st12 st23])
        with f1 have fq: "fresh h h3 quotient" by (rule fresh_later)
        from s1 q s2 p s3 r st3 fr fq show ?thesis
          by (simp add: op_divmod_def and_then_def extends2_def)
      qed
    qed
  qed
qed

text \<open>
  C6. Every transformation leaves the native value of its receiver, and of any column
  operand, unchanged, and returns a new wrapper around a new native value: for a well
  formed column \<open>c\<close> and every transformation \<open>m\<close> (\<open>__divmod__\<close>, which returns two
  columns, included), each object of the store before the call is in the store after
  it with the content it had, the receiver's among them, and the wrapper returned
  refers to an object the store did not have. \<open>fill_nan\<close> and \<open>fill_null\<close>, the only
  methods that assign into a pandas object, assign into objects they created.
\<close>

theorem transformations_leave_store_unchanged:
  assumes "wf_series h c"
  shows "extends h (call m h c)
       \<and> column (snd (call m h c)) c = column h c
       \<and> (\<forall>s. series s < length h \<longrightarrow> column (snd (call m h c)) s = column h s)
       \<and> extends2 h (op_divmod fd h c v)
       \<and> (\<forall>s. series s < length h \<longrightarrow> column (snd (op_divmod fd h c v)) s = column h s)"
proof -
  from assms have lt: "series c < length h" by (simp add: wf_series_def)
  have e: "extends h (call m h c)" by (rule extends_call)
  then have st: "stable h (snd (call m h c))" by (simp add: extends_def)
  have e2: "extends2 h (op_divmod fd h c v)" by (rule extends2_op_divmod)
  then have st2: "stable h (snd (op_divmod fd h c v))" by (simp add: extends2_def)
  from e e2 stable_column [OF st] stable_column [OF st2] lt show ?thesis by simp
qed

text \<open>An instance: \<open>fill_nan(0.0)\<close> on a nullable float column leaves the column at
  address 0 and creates two objects, the copy it assigned into and the renamed result.\<close>

theorem transformations_leave_store_unchanged_witness:
  "wf_series [a_masked_float] col_a
   \<and> snd (call (Fill_nan (FloatV 0)) [a_masked_float] col_a)
       = [a_masked_float,
          a_masked_float\<lparr>ncells := [NA, FloatV 0, FloatV 1]\<rparr>,
          a_masked_float\<lparr>ncells := [NA, FloatV 0, FloatV 1]\<rparr>]
   \<and> extends [a_masked_float] (call (Fill_nan (FloatV 0)) [a_masked_float] col_a)
   \<and> column (snd (call (Fill_nan (FloatV 0)) [a_masked_float] col_a)) col_a
       = column [a_masked_float] col_a"
proof -
  have 1: "wf_series [a_masked_float] col_a"
    by (simp add: wf_series_def wf_native_def a_masked_float_def col_a_def cell_ok_def
        kind_ok_def is_float_kind_def)
  have 2: "snd (call (Fill_nan (FloatV 0)) [a_masked_float] col_a)
       = [a_masked_float,
          a_masked_float\<lparr>ncells := [NA, FloatV 0, FloatV 1]\<rparr>,
          a_masked_float\<lparr>ncells := [NA, FloatV 0, FloatV 1]\<rparr>]"
    unfolding a_masked_float_def col_a_def by code_simp
  from transformations_leave_store_unchanged [OF 1, of "Fill_nan (FloatV 0)"] 1 2
  show ?thesis by simp
qed

subsection \<open>\<open>is_nan\<close> and \<open>is_null\<close> are disjoint\<close>

text \<open>\<open>(ser != ser).fillna(False)\<close> is true exactly where a slot differs from itself.\<close>

lemma coerce_bool_False: "coerce (bool_dtype_of d) (BoolV False) = Inr (BoolV False)"
  by (cases d) (simp_all add: bool_dtype_of_def coerce_def coerce_kind_def kind_ok_def)

lemma fillna_ne_cell:
  "(if isna_cell (bool_dtype_of d) (ne_cell d c c) then BoolV False else ne_cell d c c)
     = BoolV (ne_cell d c c = BoolV True)"
  by (cases d) (auto simp: isna_cell_def bool_dtype_of_def ne_cell_def)

lemma self_ne_fillna:
  "pd_fillna (pd_ne ser ser) (Scalar (BoolV False)) =
     Inr (ser\<lparr>ncells := map (\<lambda>c. BoolV (ne_cell (ndtype ser) c c = BoolV True)) (ncells ser),
              ndtype := bool_dtype_of (ndtype ser)\<rparr>)"
  by (simp add: pd_fillna_def pd_ne_def opnd_cells_def coerce_bool_False map2_same
      map2_replicate fillna_ne_cell o_def)

lemma ne_cell_masked: "(ne_cell (Masked k) c c = BoolV True) = (c = NaN)"
  by (auto simp: ne_cell_def)

lemma ext_has_nan_masked:
  assumes "is_extension_array_dtype d" and "list_all (cell_ok d) cs" and "NaN \<in> set cs"
  shows "\<exists>k. d = Masked k"
proof -
  from assms(2,3) have ok: "cell_ok d NaN" by (simp add: list_all_iff)
  show ?thesis
  proof (cases d)
    case (Datetime64 tz)
    with ok show ?thesis by (simp add: cell_ok_def)
  next
    case (Masked k)
    then show ?thesis by simp
  qed (use assms(1) in \<open>simp_all add: is_extension_array_dtype_def\<close>)
qed

lemma disjoint_nan_na:
  "disjoint_masks (map (\<lambda>x. BoolV (x = NaN)) cs) (map (\<lambda>x. BoolV (x = NA)) cs)"
  by (induction cs) (auto simp: disjoint_masks_def)

text \<open>
  C2. For every extension-typed column that contains both a true-null slot and a
  floating-NaN slot, \<open>is_nan\<close> and \<open>is_null\<close> return boolean columns of the column's
  length that are disjoint: no position is true in both.
\<close>

theorem is_nan_is_null_disjoint:
  assumes wf: "wf_series h c"
    and ext: "is_extension_array_dtype (ndtype (column h c))"
    and null: "NA \<in> set (ncells (column h c))"
    and nan: "NaN \<in> set (ncells (column h c))"
  shows "\<exists>nans nulls.
           result_cells (is_nan h c) = Inr nans
         \<and> result_cells (is_null h c) = Inr nulls
         \<and> length nans = length (ncells (column h c))
         \<and> length nulls = length (ncells (column h c))
         \<and> disjoint_masks nans nulls"
proof -
  let ?ser = "column h c"
  from wf have nm: "nname ?ser = Some (name c)"
    and ok: "list_all (cell_ok (ndtype ?ser)) (ncells ?ser)"
    by (simp_all add: wf_series_def wf_native_def column_def)
  from ext_has_nan_masked [OF ext ok nan] obtain k where d: "ndtype ?ser = Masked k" by blast
  have a: "result_cells (is_nan h c) = Inr (map (\<lambda>x. BoolV (x = NaN)) (ncells ?ser))"
    using ext nm d
    by (simp add: is_nan_def Let_def self_ne_fillna result_cells_from_series ne_cell_masked)
  have b: "result_cells (is_null h c) = Inr (map (\<lambda>x. BoolV (x = NA)) (ncells ?ser))"
    using nm d by (simp add: is_null_def Let_def pd_isna_def isna_cell_def result_cells_from_series)
  from a b disjoint_nan_na [of "ncells ?ser"] show ?thesis by simp
qed

theorem is_nan_is_null_disjoint_witness:
  "wf_series [a_masked_float] col_a
   \<and> is_extension_array_dtype (ndtype (column [a_masked_float] col_a))
   \<and> NA \<in> set (ncells (column [a_masked_float] col_a))
   \<and> NaN \<in> set (ncells (column [a_masked_float] col_a))
   \<and> (\<exists>nans nulls.
           result_cells (is_nan [a_masked_float] col_a) = Inr nans
         \<and> result_cells (is_null [a_masked_float] col_a) = Inr nulls
         \<and> length nans = length (ncells (column [a_masked_float] col_a))
         \<and> length nulls = length (ncells (column [a_masked_float] col_a))
         \<and> disjoint_masks nans nulls)"
proof -
  have 1: "wf_series [a_masked_float] col_a"
    by (simp add: wf_series_def wf_native_def a_masked_float_def col_a_def cell_ok_def
        kind_ok_def is_float_kind_def)
  have 2: "is_extension_array_dtype (ndtype (column [a_masked_float] col_a))"
    by (simp add: is_extension_array_dtype_def column_def a_masked_float_def col_a_def)
  have 3: "NA \<in> set (ncells (column [a_masked_float] col_a))"
    by (simp add: column_def a_masked_float_def col_a_def)
  have 4: "NaN \<in> set (ncells (column [a_masked_float] col_a))"
    by (simp add: column_def a_masked_float_def col_a_def)
  from is_nan_is_null_disjoint [OF 1 2 3 4] 1 2 3 4 show ?thesis by blast
qed

subsection \<open>\<open>fill_null\<close>\<close>

text \<open>
  On every column but a time-zone-aware datetime column, \<open>fill_null\<close> with a scalar the
  column can hold replaces exactly the missing slots, so that \<open>is_null\<close> of the result is
  false everywhere and the other slots (a \<open>NaN\<close> of a masked float column among them)
  are as they were.
\<close>

lemma not_float_and_int: "fits k i \<Longrightarrow> \<not> is_float_kind k"
  by (auto simp: fits_def is_float_kind_def is_signed_kind_def is_unsigned_kind_def)

lemma coerce_kind_ok: "kind_ok k v \<Longrightarrow> coerce_kind k v = Inr v"
  by (cases v) (auto simp: coerce_kind_def kind_ok_def dest: not_float_and_int)

lemma coerce_compatible: "compatible d v \<Longrightarrow> coerce d v = Inr v"
  by (cases d) (auto simp: compatible_def coerce_def cell_ok_def coerce_kind_ok)

lemma compatible_not_isna: "compatible d v \<Longrightarrow> \<not> isna_cell d v"
  by (cases d) (auto simp: compatible_def isna_cell_def)

lemma and_cell_bools: "and_cell (BoolV a) (BoolV b) = BoolV (a \<and> b)"
  by (auto simp: and_cell_def)

lemma masked_mask_cell:
  "invert_cell (and_cell (BoolV (c = NA)) (invert_cell (BoolV (c = NaN)))) = BoolV (c \<noteq> NA)"
  by (auto simp: and_cell_bools invert_cell_def)

lemma masked_mask_cells:
  "map (invert_cell \<circ> (\<lambda>(x, y). and_cell x y))
     (zip (map (\<lambda>c. BoolV (c = NA)) cs) (map (invert_cell \<circ> (\<lambda>c. BoolV (c = NaN))) cs))
   = map (\<lambda>c. BoolV (c \<noteq> NA)) cs"
  by (induction cs) (simp_all add: masked_mask_cell)

lemma masked_mask:
  assumes "ndtype ser = Masked k"
  shows "pd_invert (pd_and (pd_isna ser)
            (pd_invert (ser\<lparr>ncells := map (\<lambda>c. BoolV (ne_cell (ndtype ser) c c = BoolV True)) (ncells ser),
                           ndtype := bool_dtype_of (ndtype ser)\<rparr>)))
         = ser\<lparr>ncells := map (\<lambda>c. BoolV (c \<noteq> NA)) (ncells ser), ndtype := Masked k_bool\<rparr>"
  using assms
  by (simp add: pd_invert_def pd_and_def pd_isna_def isna_cell_def ne_cell_masked
      bool_dtype_of_def masked_mask_cells)

lemma where_not_na:
  assumes "compatible (ndtype ser) v"
  shows "pd_where ser (ser\<lparr>ncells := map (\<lambda>c. BoolV (c \<noteq> NA)) (ncells ser), ndtype := b\<rparr>) (Scalar v)
         = Inr (ser\<lparr>ncells := map (\<lambda>c. if c = NA then v else c) (ncells ser)\<rparr>)"
proof (cases "NA \<in> set (ncells ser)")
  case False
  then have "map (\<lambda>c. if c = NA then v else c) (ncells ser) = ncells ser"
    by (intro map_idI) auto
  moreover from False have "list_all (\<lambda>m. m = BoolV True) (map (\<lambda>c. BoolV (c \<noteq> NA)) (ncells ser))"
    by (auto simp: list_all_iff)
  ultimately show ?thesis by (simp add: pd_where_def)
next
  case True
  then have "\<not> list_all (\<lambda>m. m = BoolV True) (map (\<lambda>c. BoolV (c \<noteq> NA)) (ncells ser))"
    by (auto simp: list_all_iff)
  then show ?thesis
    using coerce_compatible [OF assms]
    by (simp add: pd_where_def opnd_cells_def zip3_map cong: map_cong)
qed

lemma fillna_scalar:
  assumes "compatible (ndtype ser) v"
  shows "pd_fillna ser (Scalar v)
         = Inr (ser\<lparr>ncells := map (\<lambda>c. if isna_cell (ndtype ser) c then v else c) (ncells ser)\<rparr>)"
proof -
  from assms have "v \<noteq> NA" by (simp add: compatible_def)
  then show ?thesis
    using coerce_compatible [OF assms]
    by (simp add: pd_fillna_def opnd_cells_def map2_replicate)
qed

lemma ext_not_tz_masked:
  assumes "is_extension_array_dtype d" and "\<forall>tz. d \<noteq> Datetime64 (Some tz)"
  shows "\<exists>k. d = Masked k"
  using assms by (cases d) (auto simp: is_extension_array_dtype_def split: option.splits)

lemma filled_value:
  assumes tz: "\<forall>tz. ndtype ser \<noteq> Datetime64 (Some tz)" and v: "compatible (ndtype ser) v"
  shows "(if is_extension_array_dtype (ndtype ser)
          then (case pd_fillna (pd_ne ser ser) (Scalar (BoolV False)) of
                  Inl e \<Rightarrow> Inl e
                | Inr self_ne \<Rightarrow>
                    (let msk = pd_and (pd_isna ser) (pd_invert self_ne)
                     in pd_where ser (pd_invert msk) (Scalar v)))
          else pd_fillna ser (Scalar v))
         = Inr (ser\<lparr>ncells := map (\<lambda>c. if isna_cell (ndtype ser) c then v else c) (ncells ser)\<rparr>)"
proof (cases "is_extension_array_dtype (ndtype ser)")
  case False
  then show ?thesis by (simp add: fillna_scalar [OF v])
next
  case True
  with tz obtain k where k: "ndtype ser = Masked k" using ext_not_tz_masked by blast
  have "isna_cell (ndtype ser) = (\<lambda>c. c = NA)" using k by (simp add: isna_cell_def fun_eq_iff)
  then show ?thesis
    using True by (simp add: self_ne_fillna Let_def masked_mask [OF k] where_not_na [OF v])
qed

lemma fill_null_fills_every_null:
  assumes wf: "wf_series h c"
    and tz: "\<forall>tz. ndtype (column h c) \<noteq> Datetime64 (Some tz)"
    and v: "compatible (ndtype (column h c)) v"
  shows "result_cells (fill_null h c (ScalarArg v))
           = Inr (map (\<lambda>x. if isna_cell (ndtype (column h c)) x then v else x) (ncells (column h c)))
       \<and> result_cells (and_then (fill_null h c (ScalarArg v)) is_null)
           = Inr (replicate (length (ncells (column h c))) (BoolV False))"
proof -
  let ?ser = "h ! series c"
  let ?filled = "map (\<lambda>x. if isna_cell (ndtype ?ser) x then v else x) (ncells ?ser)"
  let ?r = "?ser\<lparr>ncells := ?filled\<rparr>"
  let ?final = "?r\<lparr>nindex := nindex ?ser, nname := Some (name c)\<rparr>"
  let ?w = "\<lparr>name = name c, series = Suc (Suc (length h)), api_version = api_version c\<rparr>"
  from tz have tz': "\<forall>tz. ndtype ?ser \<noteq> Datetime64 (Some tz)" by (simp add: column_def)
  from v have v': "compatible (ndtype ?ser) v" by (simp add: column_def)
  note F = filled_value [OF tz' v', unfolded Let_def]
  have run: "fill_null h c (ScalarArg v) = (Inr ?w, h @ [?ser, ?r\<lparr>nindex := nindex ?ser\<rparr>, ?final])"
    unfolding fill_null_def validate_column_comparand_def pd_copy_def alloc_def Let_def
      prod.case operand.case sum.case nth_append_length column_def F
    by (simp add: set_index_def nth_append from_series_named pd_rename_def update_newest)
  have cells: "result_cells (fill_null h c (ScalarArg v)) = Inr ?filled"
    by (simp add: run result_cells_def column_def nth_append)
  have none: "map (\<lambda>x. BoolV (isna_cell (ndtype ?ser) x)) ?filled
                = replicate (length (ncells ?ser)) (BoolV False)"
    using compatible_not_isna [OF v'] by (simp add: map_replicate_const [symmetric] o_def)
  have "result_cells (and_then (fill_null h c (ScalarArg v)) is_null)
          = Inr (map (\<lambda>x. BoolV (isna_cell (ndtype ?ser) x)) ?filled)"
    by (simp add: run and_then_def is_null_def Let_def column_def nth_append
        pd_isna_def result_cells_from_series)
  with cells none show ?thesis by (simp add: column_def)
qed

text \<open>
  C1. \<open>c.fill_null(v).is_null()\<close> is to be false everywhere. On a time-zone-aware
  datetime column it is not: the dtype is an extension dtype, \<open>ser != ser\<close> is true at
  \<open>NaT\<close>, so the mask \<open>ser.isna() & ~(ser != ser).fillna(False)\<close> selects no slot and
  \<open>NaT\<close> is left as it is, although the scalar is a timestamp the column can hold.
\<close>

theorem fill_null_skips_NaT_of_tz_aware_column:
  "result_cells (fill_null [a_tz_aware] col_a (ScalarArg (Timestamp 0)))
     = Inr [NA, Timestamp 1577836800000000000]
   \<and> result_cells (and_then (fill_null [a_tz_aware] col_a (ScalarArg (Timestamp 0))) is_null)
     = Inr [BoolV True, BoolV False]"
  unfolding a_tz_aware_def col_a_def by code_simp

subsection \<open>Casting to a standard dtype and reading the dtype back\<close>

lemma standard_of_kind_of: "standard_of (kind_of t) = t"
  by (cases t) (simp_all add: standard_of_def kind_of_def)

text \<open>
  C7. For every column \<open>c\<close> and every standard dtype \<open>t\<close>, when \<open>c.cast(t)\<close> returns a
  column, the \<open>dtype\<close> of that column is \<open>t\<close>.
\<close>

theorem cast_dtype_round_trip:
  assumes "cast conv h c t = (Inr r, h')"
  shows "dtype h' r = Inr t"
proof -
  let ?d = "map_standard_dtype_to_pandas_dtype t"
  from assms obtain cs where cs: "conv (column h c) ?d = Inr cs"
    by (auto simp: cast_def unary_def pd_astype_def Let_def split: sum.splits)
  let ?new = "(column h c)\<lparr>ncells := cs, ndtype := ?d\<rparr>"
  from assms cs have fs: "from_series h c ?new = (Inr r, h')"
    by (simp add: cast_def unary_def pd_astype_def Let_def)
  then have "h' = h @ [?new]" using from_series_store [of h c ?new] by simp
  moreover from fs have "series r = length h" using from_series_fresh [of h c ?new r] by simp
  ultimately have "ndtype (column h' r) = ?d" by (simp add: column_def)
  then show ?thesis
    by (simp add: dtype_def map_pandas_dtype_to_standard_dtype_def
        map_standard_dtype_to_pandas_dtype_def standard_of_kind_of)
qed

theorem cast_dtype_round_trip_witness:
  "cast keep_cells [a_float] col_a Float32
     = (Inr \<lparr>name = ''a'', series = 1, api_version = ''2023.11-beta''\<rparr>,
        [a_float, a_float\<lparr>ndtype := Numpy k_float32\<rparr>])
   \<and> dtype [a_float, a_float\<lparr>ndtype := Numpy k_float32\<rparr>]
        \<lparr>name = ''a'', series = 1, api_version = ''2023.11-beta''\<rparr> = Inr Float32"
proof -
  have 1: "cast keep_cells [a_float] col_a Float32
     = (Inr \<lparr>name = ''a'', series = 1, api_version = ''2023.11-beta''\<rparr>,
        [a_float, a_float\<lparr>ndtype := Numpy k_float32\<rparr>])"
    by (simp add: cast_def unary_def pd_astype_def keep_cells_def Let_def column_def
        map_standard_dtype_to_pandas_dtype_def kind_of_def from_series_def alloc_def init_def
        pd_rename_def a_float_def col_a_def)
  from cast_dtype_round_trip [OF 1] 1 show ?thesis by simp
qed

subsection \<open>The time unit of \<open>unix_timestamp\<close>\<close>

text \<open>
  C8. For every datetime column, \<open>unix_timestamp\<close> with a time unit other than
  \<open>"s"\<close>, \<open>"ms"\<close>, \<open>"us"\<close> and \<open>"ns"\<close> fails with \<open>AssertionError\<close>, and with each of
  these four units it returns a column.
\<close>

theorem unix_timestamp_time_unit:
  assumes wf: "wf_series h c" and dt: "is_datetime (ndtype (column h c))"
  shows "if time_unit \<in> set [''s'', ''ms'', ''us'', ''ns'']
         then (\<exists>r. fst (unix_timestamp h c time_unit) = Inr r)
         else fst (unix_timestamp h c time_unit) = Inl AssertionError"
proof -
  from dt obtain tz where d: "ndtype (column h c) = Datetime64 tz"
    by (cases "ndtype (column h c)") (simp_all add: is_datetime_def)
  from wf have nm: "nname (column h c) = Some (name c)"
    by (simp add: wf_series_def column_def)
  have named: "nname (pd_Series x (nname (column h c))) = Some (name c)" for x
    using nm by (simp add: pd_Series_def)
  show ?thesis
    using d by (simp add: unix_timestamp_def Let_def from_series_named [OF named])
qed

theorem unix_timestamp_time_unit_witness:
  "wf_series [a_instants] col_a
   \<and> is_datetime (ndtype (column [a_instants] col_a))
   \<and> (\<exists>r. fst (unix_timestamp [a_instants] col_a ''ns'') = Inr r)
   \<and> fst (unix_timestamp [a_instants] col_a ''min'') = Inl AssertionError"
proof -
  have 1: "wf_series [a_instants] col_a"
    by (simp add: wf_series_def wf_native_def a_instants_def col_a_def cell_ok_def in_int64_def)
  have 2: "is_datetime (ndtype (column [a_instants] col_a))"
    by (simp add: is_datetime_def column_def a_instants_def col_a_def)
  from unix_timestamp_time_unit [OF 1 2, of "''ns''"]
    unix_timestamp_time_unit [OF 1 2, of "''min''"] 1 2
  show ?thesis by simp
qed

subsection \<open>\<open>unix_timestamp\<close> in milliseconds is not monotone\<close>

text \<open>
  C3. \<open>unix_timestamp\<close> is to be monotonically increasing with the datetime. It is not:
  \<open>total_seconds\<close> is a float64, which near \<open>1.7e9\<close> seconds has a spacing of about
  \<open>2.4e-7\<close>, so the instant 2023-11-14T22:13:20.999999999 has
  \<open>total_seconds() = 1700000001.0\<close>, and its floor is one second late. With the
  microsecond field 999999 added, the earlier of two instants one nanosecond apart gets
  the millisecond value 1700000001999 and the later one 1700000001000.
\<close>

theorem unix_timestamp_ms_not_monotone:
  "ncells a_instants = [Timestamp 1700000000999999999, Timestamp 1700000001000000000]
   \<and> result_cells (unix_timestamp [a_instants] col_a ''ms'')
     = Inr [FloatV 1700000001999, FloatV 1700000001000]"
  unfolding a_instants_def col_a_def by code_simp

text \<open>The same two instants in the other units: the seconds agree, and the
  microsecond and nanosecond values decrease as the millisecond values do.\<close>

lemma unix_timestamp_other_units:
  "result_cells (unix_timestamp [a_instants] col_a ''s'')
     = Inr [FloatV 1700000001, FloatV 1700000001]
   \<and> result_cells (unix_timestamp [a_instants] col_a ''us'')
     = Inr [FloatV 1700000001999999, FloatV 1700000001000000]
   \<and> result_cells (unix_timestamp [a_instants] col_a ''ns'')
     = Inr [IntV 1700000001999999999, IntV 1700000001000000000]"
  unfolding a_instants_def col_a_def by code_simp

subsection \<open>\<open>__rsub__\<close> and the reversed difference\<close>

text \<open>
  On a signed integer column, masked or not, and an integer that fits its kind,
  \<open>-1 * (c - v)\<close> is \<open>v - c\<close> slot by slot, wrap-around included.
\<close>

lemma signed_not_float: "is_signed_kind k \<Longrightarrow> \<not> is_float_kind k \<and> k \<noteq> k_bool"
  by (auto simp: is_signed_kind_def is_float_kind_def)

lemma signed_fits_minus_one: "is_signed_kind k \<Longrightarrow> fits k (- 1)"
  by (auto simp: fits_def int_lo_def int_hi_def is_signed_kind_def kind_bits_def)

lemma wrap_neg_wrap:
  assumes s: "is_signed_kind k"
  shows "wrap k (- wrap k (i - j)) = wrap k (j - i)"
proof -
  define M :: int where "M = 2 ^ kind_bits k"
  define H :: int where "H = 2 ^ (kind_bits k - 1)"
  have M: "M = 2 * H"
    using s by (auto simp: M_def H_def is_signed_kind_def kind_bits_def)
  have "(- ((i - j + H) mod M - H) + H) mod M = (M - (i - j + H) mod M) mod M"
    using M by (simp add: algebra_simps)
  also have "\<dots> = (M - (i - j + H)) mod M" by (rule mod_diff_right_eq)
  also have "\<dots> = (j - i + H + 0 * M) mod M" using M by (simp add: algebra_simps)
  also have "\<dots> = (j - i + H) mod M" by simp
  finally have "(- ((i - j + H) mod M - H) + H) mod M - H = (j - i + H) mod M - H" by simp
  then show ?thesis using s by (simp add: wrap_def M_def H_def)
qed

lemma signed_cells:
  assumes "is_signed_kind k" and "d = Numpy k \<or> d = Masked k" and "cell_ok d a"
  shows "(\<exists>i. a = IntV i) \<or> (a = NA \<and> d = Masked k)"
  using assms signed_not_float [of k]
  by (cases a) (auto simp: cell_ok_def kind_ok_def)

lemma arith_cell_int:
  assumes "d = Numpy k \<or> d = Masked k"
    and "(\<exists>i. a = IntV i) \<or> (a = NA \<and> d = Masked k)"
  shows "arith_cell opr d a (IntV j)
         = Inr (case a of IntV i \<Rightarrow> IntV (wrap k (int_op opr i j)) | _ \<Rightarrow> NA)"
  using assms by (auto simp: arith_cell_def num_cell_def)

lemma pd_arith_int_scalar:
  assumes k: "is_signed_kind k" and d: "ndtype ser = Numpy k \<or> ndtype ser = Masked k"
    and j: "fits k j"
    and cs: "\<forall>a\<in>set (ncells ser). (\<exists>i. a = IntV i) \<or> (a = NA \<and> ndtype ser = Masked k)"
  shows "pd_arith opr ser (Scalar (IntV j))
         = Inr (ser\<lparr>ncells := map (\<lambda>a. case a of IntV i \<Rightarrow> IntV (wrap k (int_op opr i j)) | _ \<Rightarrow> NA)
                                (ncells ser)\<rparr>)"
proof -
  let ?n = "length (ncells ser)"
  have plan: "arith_plan opr (ndtype ser) ?n (Scalar (IntV j))
                = Inr (replicate ?n (IntV j), ndtype ser)"
    using d j signed_not_float [OF k]
    by (auto simp: arith_plan_def num_operand_def num_scalar_def)
  have cells: "sequence (map2 (arith_cell opr (ndtype ser)) (ncells ser) (replicate ?n (IntV j)))
                = Inr (map (\<lambda>a. case a of IntV i \<Rightarrow> IntV (wrap k (int_op opr i j)) | _ \<Rightarrow> NA)
                         (ncells ser))"
    unfolding map2_replicate [OF refl]
    by (rule sequence_map) (use cs in \<open>simp add: arith_cell_int [OF d]\<close>)
  show ?thesis by (simp add: pd_arith_def plan cells)
qed

lemma binary_scalar:
  assumes "f (column h c) (Scalar v) = Inr r" and "nname (column h c) = Some n"
  shows "binary f h c (ScalarArg v)
         = (Inr \<lparr>name = n, series = length h, api_version = api_version c\<rparr>,
            h @ [pd_rename r (Some n)])"
  using assms
  by (simp add: binary_def Let_def validate_column_comparand_def from_series_named pd_rename_def)

lemma rsub_signed_integer_column:
  assumes wf: "wf_series h c" and k: "is_signed_kind k"
    and d: "ndtype (column h c) = Numpy k \<or> ndtype (column h c) = Masked k"
    and j: "fits k j"
  shows "result_cells (op_rsub h c (ScalarArg (IntV j)))
           = Inr (map (\<lambda>a. case a of IntV i \<Rightarrow> IntV (wrap k (j - i)) | _ \<Rightarrow> NA) (ncells (column h c)))
       \<and> result_cells (reversed_difference h c (ScalarArg (IntV j)))
           = Inr (map (\<lambda>a. case a of IntV i \<Rightarrow> IntV (wrap k (j - i)) | _ \<Rightarrow> NA) (ncells (column h c)))"
proof -
  let ?ser = "column h c"
  let ?res = "\<lambda>opr x a. case a of IntV i \<Rightarrow> IntV (wrap k (int_op opr i x)) | _ \<Rightarrow> NA"
  from wf have nm: "nname ?ser = Some (name c)"
    and ok: "list_all (cell_ok (ndtype ?ser)) (ncells ?ser)"
    by (simp_all add: wf_series_def wf_native_def column_def)
  have cs: "\<forall>a\<in>set (ncells ?ser). (\<exists>i. a = IntV i) \<or> (a = NA \<and> ndtype ?ser = Masked k)"
  proof
    fix a assume "a \<in> set (ncells ?ser)"
    with ok have "cell_ok (ndtype ?ser) a" by (simp add: list_all_iff)
    with signed_cells [OF k d] show "(\<exists>i. a = IntV i) \<or> (a = NA \<and> ndtype ?ser = Masked k)"
      by blast
  qed
  let ?diff = "?ser\<lparr>ncells := map (?res Sub j) (ncells ?ser)\<rparr>"
  let ?w = "\<lparr>name = name c, series = length h, api_version = api_version c\<rparr>"
  let ?h1 = "h @ [pd_rename ?diff (Some (name c))]"
  have sub: "op_sub h c (ScalarArg (IntV j)) = (Inr ?w, ?h1)"
    unfolding op_sub_def
    by (rule binary_scalar [where f = "pd_arith Sub" and h = h and c = c,
          OF pd_arith_int_scalar [OF k d j cs, where opr = Sub] nm])
  have col1: "column ?h1 ?w = pd_rename ?diff (Some (name c))" by (simp add: column_def)
  have d1: "ndtype (column ?h1 ?w) = Numpy k \<or> ndtype (column ?h1 ?w) = Masked k"
    unfolding col1 using d by (simp add: pd_rename_def)
  have cs1: "\<forall>a\<in>set (ncells (column ?h1 ?w)).
               (\<exists>i. a = IntV i) \<or> (a = NA \<and> ndtype (column ?h1 ?w) = Masked k)"
    unfolding col1 using cs by (auto simp: pd_rename_def split: cell.splits)
  have nm1: "nname (column ?h1 ?w) = Some (name c)"
    unfolding col1 by (simp add: pd_rename_def)
  let ?prod = "(column ?h1 ?w)\<lparr>ncells := map (?res Mul (- 1)) (ncells (column ?h1 ?w))\<rparr>"
  let ?w2 = "\<lparr>name = name c, series = length ?h1, api_version = api_version ?w\<rparr>"
  have mul_run: "op_rmul ?h1 ?w (ScalarArg (IntV (- 1)))
                   = (Inr ?w2, ?h1 @ [pd_rename ?prod (Some (name c))])"
    unfolding op_rmul_def op_mul_def
    by (rule binary_scalar [where f = "pd_arith Mul" and h = ?h1 and c = ?w,
          OF pd_arith_int_scalar [OF k d1 signed_fits_minus_one [OF k] cs1, where opr = Mul] nm1])
  have twice: "map (?res Mul (- 1)) (ncells (column ?h1 ?w))
                 = map (\<lambda>a. case a of IntV i \<Rightarrow> IntV (wrap k (j - i)) | _ \<Rightarrow> NA) (ncells ?ser)"
    unfolding col1
    by (simp add: pd_rename_def int_op_def wrap_neg_wrap [OF k] split: cell.splits)
  have "result_cells (op_rsub h c (ScalarArg (IntV j))) = Inr (map (?res Mul (- 1)) (ncells (column ?h1 ?w)))"
    unfolding op_rsub_def sub and_then_def prod.case sum.case mul_run result_cells_def
    by (simp add: column_def pd_rename_def nth_append)
  with twice have rsub: "result_cells (op_rsub h c (ScalarArg (IntV j)))
                = Inr (map (\<lambda>a. case a of IntV i \<Rightarrow> IntV (wrap k (j - i)) | _ \<Rightarrow> NA) (ncells ?ser))"
    by simp
  let ?rd = "?ser\<lparr>ncells := map (?res RSub j) (ncells ?ser)\<rparr>"
  have rev_run: "reversed_difference h c (ScalarArg (IntV j))
                   = (Inr ?w, h @ [pd_rename ?rd (Some (name c))])"
    unfolding reversed_difference_def
    by (rule binary_scalar [where f = "pd_arith RSub" and h = h and c = c,
          OF pd_arith_int_scalar [OF k d j cs, where opr = RSub] nm])
  have rev: "result_cells (reversed_difference h c (ScalarArg (IntV j)))
                = Inr (map (\<lambda>a. case a of IntV i \<Rightarrow> IntV (wrap k (j - i)) | _ \<Rightarrow> NA) (ncells ?ser))"
    unfolding rev_run result_cells_def
    by (simp add: column_def pd_rename_def int_op_def)
  from rsub rev show ?thesis by simp
qed

text \<open>
  C10. \<open>c.__rsub__(v)\<close>, computed as \<open>-1 * (c - v)\<close>, is to equal \<open>v - c\<close> slot by slot. On
  a timedelta column \<open>c\<close> and a timestamp \<open>v\<close> it does not: \<open>v - c\<close> is the timestamp
  column pandas computes, here 2020-01-02 minus one day, and \<open>c - v\<close> raises
  \<open>TypeError\<close>, so \<open>__rsub__\<close> raises.
\<close>

theorem rsub_raises_on_timedelta_column:
  "result_cells (op_rsub [a_one_day] col_a (ScalarArg (Timestamp 1577923200000000000)))
     = Inl TypeError
   \<and> result_cells (reversed_difference [a_one_day] col_a (ScalarArg (Timestamp 1577923200000000000)))
     = Inr [Timestamp 1577836800000000000]"
  unfolding a_one_day_def col_a_def by code_simp

text \<open>
  On an unsigned column the product with \<open>-1\<close> fails as well: for the \<open>uint8\<close> column
  \<open>[1]\<close> and \<open>v = 2\<close>, \<open>c - v\<close> wraps around to 255 and \<open>-1\<close> is no \<open>uint8\<close>, while
  \<open>v - c\<close> is 1.
\<close>

lemma rsub_raises_on_unsigned_column:
  "result_cells (op_sub [a_uint8] col_a (ScalarArg (IntV 2))) = Inr [IntV 255]
   \<and> result_cells (op_rsub [a_uint8] col_a (ScalarArg (IntV 2))) = Inl OverflowError
   \<and> result_cells (reversed_difference [a_uint8] col_a (ScalarArg (IntV 2))) = Inr [IntV 1]"
  unfolding a_uint8_def col_a_def by code_simp

end
